theory Spec2Isabelle
  imports Main "HOL-Library.Word"
begin

unbundle bit_operations_syntax

chapter \<open>Portals 4 message-transfer engine: models of the sources\<close>

section \<open>Byte order conversion (src/ib/ptl_loc.h)\<close>

text \<open>
  The header defines the little-endian conversions only under
  \<^verbatim>\<open>__BYTE_ORDER==__LITTLE_ENDIAN\<close> and stops the build otherwise, so the host is
  little-endian and the C library's \<^verbatim>\<open>htons\<close> and \<^verbatim>\<open>htonl\<close> reverse the bytes of their
  argument.  They are written here with shifts and byte masks.
\<close>

type_synonym u8 = "8 word"
type_synonym u16 = "16 word"
type_synonym u32 = "32 word"
type_synonym u64 = "64 word"

definition htons :: "u16 \<Rightarrow> u16" where
  "htons x = push_bit 8 (take_bit 8 x) OR drop_bit 8 x"

definition htonl :: "u32 \<Rightarrow> u32" where
  "htonl x = push_bit 24 (take_bit 8 x) OR push_bit 16 (take_bit 8 (drop_bit 8 x))
     OR push_bit 8 (take_bit 8 (drop_bit 16 x)) OR drop_bit 24 x"

definition cpu_to_be16 :: "u16 \<Rightarrow> u16" where
  "cpu_to_be16 x = htons x"

definition be16_to_cpu :: "u16 \<Rightarrow> u16" where
  "be16_to_cpu x = htons x"

definition cpu_to_be32 :: "u32 \<Rightarrow> u32" where
  "cpu_to_be32 x = htonl x"

definition be32_to_cpu :: "u32 \<Rightarrow> u32" where
  "be32_to_cpu x = htonl x"

text \<open>
  \<^verbatim>\<open>uint64_t y = htonl((uint32_t)x); return (y << 32) | htonl((uint32_t)(x >> 32));\<close>
\<close>

definition cpu_to_be64 :: "u64 \<Rightarrow> u64" where
  "cpu_to_be64 x =
     (let y = (ucast (htonl (ucast x)) :: u64)
      in push_bit 32 y OR ucast (htonl (ucast (drop_bit 32 x))))"

definition be64_to_cpu :: "u64 \<Rightarrow> u64" where
  "be64_to_cpu x = cpu_to_be64 x"

definition cpu_to_le16 :: "u16 \<Rightarrow> u16" where
  "cpu_to_le16 x = x"

definition le16_to_cpu :: "u16 \<Rightarrow> u16" where
  "le16_to_cpu x = x"

definition cpu_to_le32 :: "u32 \<Rightarrow> u32" where
  "cpu_to_le32 x = x"

definition le32_to_cpu :: "u32 \<Rightarrow> u32" where
  "le32_to_cpu x = x"

definition cpu_to_le64 :: "u64 \<Rightarrow> u64" where
  "cpu_to_le64 x = x"

definition le64_to_cpu :: "u64 \<Rightarrow> u64" where
  "le64_to_cpu x = x"

text \<open>
  Modelled from the spec: the header structures of \<^verbatim>\<open>ptl_hdr.h\<close> are not among the
  sources.  The record lists the fields of the wire header in the order the specification
  gives them (section 6, ``Wire header''); the sources fill and read multi-byte fields
  through the little-endian conversions (\<^verbatim>\<open>hdr->src_nid = cpu_to_le32(...)\<close> in
  \<^verbatim>\<open>ptl_conn.c\<close>, \<^verbatim>\<open>le32_to_cpu(hdr->src_nid)\<close> in \<^verbatim>\<open>ptl_recv.c\<close>), single bytes as
  they are.
\<close>

record wire_hdr =
  h_version :: u8
  h_operation :: u8
  h_ni_type :: u8
  h_pkt_fmt :: u8
  h_flags :: u8
  h_hdr_handle :: u32
  h_src_nid :: u32
  h_src_pid :: u32
  h_length :: u64
  h_pt_index :: u32
  h_match_bits :: u64
  h_remote_offset :: u64
  h_hdr_data :: u64
  h_atom_op :: u8
  h_atom_type :: u8
  h_ack_req :: u8

definition encode_hdr :: "wire_hdr \<Rightarrow> wire_hdr" where
  "encode_hdr h = h\<lparr>h_hdr_handle := cpu_to_le32 (h_hdr_handle h),
                     h_src_nid := cpu_to_le32 (h_src_nid h),
                     h_src_pid := cpu_to_le32 (h_src_pid h),
                     h_length := cpu_to_le64 (h_length h),
                     h_pt_index := cpu_to_le32 (h_pt_index h),
                     h_match_bits := cpu_to_le64 (h_match_bits h),
                     h_remote_offset := cpu_to_le64 (h_remote_offset h),
                     h_hdr_data := cpu_to_le64 (h_hdr_data h)\<rparr>"

definition decode_hdr :: "wire_hdr \<Rightarrow> wire_hdr" where
  "decode_hdr w = w\<lparr>h_hdr_handle := le32_to_cpu (h_hdr_handle w),
                     h_src_nid := le32_to_cpu (h_src_nid w),
                     h_src_pid := le32_to_cpu (h_src_pid w),
                     h_length := le64_to_cpu (h_length w),
                     h_pt_index := le32_to_cpu (h_pt_index w),
                     h_match_bits := le64_to_cpu (h_match_bits w),
                     h_remote_offset := le64_to_cpu (h_remote_offset w),
                     h_hdr_data := le64_to_cpu (h_hdr_data w)\<rparr>"


section \<open>Data movement calls (trunk/ib/src/ptl_move.c)\<close>

subsection \<open>Declarations the sources use but do not contain\<close>

text \<open>
  Modelled from the spec: \<^verbatim>\<open>portals4.h\<close> is not among the sources.  The return codes
  are the error codes of specification section 6; \<^verbatim>\<open>PTL_OK\<close> is the code the sources
  test with \<^verbatim>\<open>if (err)\<close>.
\<close>

datatype ptl_ret = PTL_OK | PTL_NO_INIT | PTL_NO_SPACE | PTL_PID_IN_USE | PTL_ARG_INVALID
  | PTL_FAIL

text \<open>
  Modelled from the spec: the enumerators of \<^verbatim>\<open>ptl_op_t\<close> and \<^verbatim>\<open>ptl_datatype_t\<close>
  (\<^verbatim>\<open>portals4.h\<close>), numbered in the order of the tables \<^verbatim>\<open>op_info\<close> and
  \<^verbatim>\<open>atom_type_size\<close> and of the atomic op matrix of specification section 4.6, with
  \<^verbatim>\<open>PTL_OP_LAST\<close> and \<^verbatim>\<open>PTL_DATATYPE_LAST\<close> one past the last.  A C enumeration
  variable can hold any integer, so the arguments \<^verbatim>\<open>atom_op\<close> and \<^verbatim>\<open>atom_type\<close> are
  integers.
\<close>

definition PTL_MIN :: int where "PTL_MIN = 0"
definition PTL_MAX :: int where "PTL_MAX = 1"
definition PTL_SUM :: int where "PTL_SUM = 2"
definition PTL_PROD :: int where "PTL_PROD = 3"
definition PTL_LOR :: int where "PTL_LOR = 4"
definition PTL_LAND :: int where "PTL_LAND = 5"
definition PTL_BOR :: int where "PTL_BOR = 6"
definition PTL_BAND :: int where "PTL_BAND = 7"
definition PTL_LXOR :: int where "PTL_LXOR = 8"
definition PTL_BXOR :: int where "PTL_BXOR = 9"
definition PTL_SWAP :: int where "PTL_SWAP = 10"
definition PTL_CSWAP :: int where "PTL_CSWAP = 11"
definition PTL_CSWAP_NE :: int where "PTL_CSWAP_NE = 12"
definition PTL_CSWAP_LE :: int where "PTL_CSWAP_LE = 13"
definition PTL_CSWAP_LT :: int where "PTL_CSWAP_LT = 14"
definition PTL_CSWAP_GE :: int where "PTL_CSWAP_GE = 15"
definition PTL_CSWAP_GT :: int where "PTL_CSWAP_GT = 16"
definition PTL_MSWAP :: int where "PTL_MSWAP = 17"
definition PTL_OP_LAST :: int where "PTL_OP_LAST = 18"

definition PTL_CHAR :: int where "PTL_CHAR = 0"
definition PTL_UCHAR :: int where "PTL_UCHAR = 1"
definition PTL_SHORT :: int where "PTL_SHORT = 2"
definition PTL_USHORT :: int where "PTL_USHORT = 3"
definition PTL_INT :: int where "PTL_INT = 4"
definition PTL_UINT :: int where "PTL_UINT = 5"
definition PTL_LONG :: int where "PTL_LONG = 6"
definition PTL_ULONG :: int where "PTL_ULONG = 7"
definition PTL_FLOAT :: int where "PTL_FLOAT = 8"
definition PTL_FLOAT_COMPLEX :: int where "PTL_FLOAT_COMPLEX = 9"
definition PTL_DOUBLE :: int where "PTL_DOUBLE = 10"
definition PTL_DOUBLE_COMPLEX :: int where "PTL_DOUBLE_COMPLEX = 11"
definition PTL_DATATYPE_LAST :: int where "PTL_DATATYPE_LAST = 12"

text \<open>
  The enumerators of \<^verbatim>\<open>ptl_ack_req_t\<close>, \<^verbatim>\<open>PTL_PID_ANY\<close> and \<^verbatim>\<open>PTL_PID_MAX\<close>
  (\<^verbatim>\<open>portals4.h\<close>), the enumerators of the header operation (\<^verbatim>\<open>ptl_hdr.h\<close>) and the
  sizes of the structures are declared in headers that are not among the sources, and
  the sources compare them by order.  Their values are therefore a parameter of every
  function that uses them.
\<close>

record enums =
  PTL_ACK_REQ :: int
  PTL_NO_ACK_REQ :: int
  PTL_CT_ACK_REQ :: int
  PTL_OC_ACK_REQ :: int
  OP_PUT :: nat
  OP_GET :: nat
  OP_ATOMIC :: nat
  OP_SWAP :: nat
  OP_RDMA_DISC :: nat
  OP_REPLY :: nat
  sizeof_req_hdr_t :: nat
  sizeof_ack_hdr_t :: nat
  PTL_PID_ANY :: int
  PTL_PID_MAX :: nat
  sizeof_ptl_ni_limits_t :: nat

subsection \<open>The tables\<close>

record atom_op_info =
  float_ok :: int
  complex_ok :: int
  atomic_ok :: int
  swap_ok :: int
  use_operand :: int

definition info :: "int \<Rightarrow> int \<Rightarrow> int \<Rightarrow> int \<Rightarrow> int \<Rightarrow> atom_op_info" where
  "info f c a s u = \<lparr>float_ok = f, complex_ok = c, atomic_ok = a, swap_ok = s, use_operand = u\<rparr>"

text \<open>
  The array is written with designated initialisers: the entry of an index that the
  initialiser does not name is all zero.
\<close>

definition op_info_table :: "(int \<times> atom_op_info) list" where
  "op_info_table =
    [(PTL_MIN,      info 1 0 1 0 0),
     (PTL_MAX,      info 1 0 1 0 0),
     (PTL_SUM,      info 1 1 1 0 0),
     (PTL_PROD,     info 1 1 1 0 0),
     (PTL_LOR,      info 0 0 1 0 0),
     (PTL_LAND,     info 0 0 1 0 0),
     (PTL_BOR,      info 0 0 1 0 0),
     (PTL_BAND,     info 0 0 1 0 0),
     (PTL_LXOR,     info 0 0 1 0 0),
     (PTL_BXOR,     info 0 0 1 0 0),
     (PTL_SWAP,     info 1 1 0 1 0),
     (PTL_CSWAP,    info 1 1 0 1 1),
     (PTL_CSWAP_NE, info 1 1 0 1 1),
     (PTL_CSWAP_LE, info 1 0 0 1 1),
     (PTL_CSWAP_LT, info 1 0 0 1 1),
     (PTL_CSWAP_GE, info 1 0 0 1 1),
     (PTL_CSWAP_GT, info 1 0 0 1 1),
     (PTL_MSWAP,    info 0 0 0 1 1)]"

definition op_info :: "int \<Rightarrow> atom_op_info" where
  "op_info i = (case map_of op_info_table i of Some r \<Rightarrow> r | None \<Rightarrow> info 0 0 0 0 0)"

definition atom_type_size_table :: "(int \<times> int) list" where
  "atom_type_size_table =
    [(PTL_CHAR, 1),
     (PTL_UCHAR, 1),
     (PTL_SHORT, 2),
     (PTL_USHORT, 2),
     (PTL_INT, 4),
     (PTL_UINT, 4),
     (PTL_LONG, 8),
     (PTL_ULONG, 8),
     (PTL_FLOAT, 4),
     (PTL_FLOAT_COMPLEX, 8),
     (PTL_DOUBLE, 8),
     (PTL_DOUBLE_COMPLEX, 16)]"

text \<open>
  Every caller that validates its arguments reads the table inside its bounds; the
  value given here outside the table (a read out of bounds in C) is never used by a
  checked call.
\<close>

definition atom_type_size :: "int \<Rightarrow> int" where
  "atom_type_size t = (case map_of atom_type_size_table t of Some n \<Rightarrow> n | None \<Rightarrow> 0)"

subsection \<open>Objects\<close>

text \<open>
  Modelled from the spec: \<^verbatim>\<open>ptl_ni_limits_t\<close> is declared in \<^verbatim>\<open>portals4.h\<close>, which is
  not among the sources.  The record has the limits the sources read or write (section 3
  of the specification lists them); sizes are \<^verbatim>\<open>ptl_size_t\<close>, counts are \<^verbatim>\<open>int\<close>.
\<close>

record ptl_ni_limits_t =
  max_mds :: int
  max_cts :: int
  max_eqs :: int
  max_pt_index :: int
  max_iovecs :: int
  max_list_size :: int
  max_msg_size :: u64
  max_atomic_size :: u64
  max_waw_ordered_size :: u64
  max_war_ordered_size :: u64
  max_volatile_size :: u64
  features :: u32

record ni_t =
  limits :: ptl_ni_limits_t
  uid :: u32
  jid :: u32

record md_t =
  md_length :: u64
  md_eq :: "nat option"
  md_ct :: "nat option"
  md_ni :: nat

datatype init_state = STATE_INIT_START | STATE_INIT_PREP_REQ | STATE_INIT_WAIT_CONN
  | STATE_INIT_SEND_REQ | STATE_INIT_WAIT_COMP | STATE_INIT_SEND_ERROR
  | STATE_INIT_EARLY_SEND_EVENT | STATE_INIT_WAIT_RECV | STATE_INIT_DATA_IN
  | STATE_INIT_LATE_SEND_EVENT | STATE_INIT_ACK_EVENT | STATE_INIT_REPLY_EVENT
  | STATE_INIT_CLEANUP | STATE_INIT_ERROR | STATE_INIT_DONE | STATE_INIT_LAST

record xi_t =
  xi_operation :: nat
  xi_target :: "u32 \<times> u32"
  xi_uid :: u32
  xi_jid :: u32
  xi_pt_index :: u32
  xi_match_bits :: u64
  xi_ack_req :: int
  xi_put_md :: "md_t option"
  xi_get_md :: "md_t option"
  xi_hdr_data :: u64
  xi_user_ptr :: nat
  xi_threshold :: u64
  xi_atom_op :: int
  xi_atom_type :: int
  xi_operand :: u64
  xi_rlength :: u64
  xi_put_offset :: u64
  xi_put_resid :: u64
  xi_get_offset :: u64
  xi_get_resid :: u64
  xi_roffset :: u64
  xi_pkt_len :: nat
  xi_state :: init_state

text \<open>
  The state of the library as far as these calls touch it: whether \<^verbatim>\<open>PtlInit\<close> has
  run, the memory descriptors by handle, the interfaces by index, the free initiator
  descriptors, and the descriptors handed to the initiator state machine
  (\<^verbatim>\<open>process_init\<close>), oldest first.  Events are generated by the state machine only,
  so a call that hands it nothing generates no event.
\<close>

record lib_state =
  initialised :: bool
  md_pool :: "nat \<Rightarrow> md_t option"
  ni_tab :: "nat \<Rightarrow> ni_t"
  xi_free :: "xi_t list"
  started :: "xi_t list"

text \<open>
  Modelled from the spec: \<^verbatim>\<open>get_gbl\<close>, \<^verbatim>\<open>md_get\<close> and \<^verbatim>\<open>xi_alloc\<close> are not among
  the sources.  Section 7 names \<^verbatim>\<open>NO_INIT\<close> and \<^verbatim>\<open>NO_SPACE\<close> among the errors a
  submission returns synchronously, section 4.1 says that looking a handle up ``returns
  the object only if the generation matches; otherwise fails with ARG_INVALID'' and
  that pools allocate from their free objects.
\<close>

definition get_gbl :: "lib_state \<Rightarrow> ptl_ret" where
  "get_gbl s = (if initialised s then PTL_OK else PTL_NO_INIT)"

definition md_get :: "lib_state \<Rightarrow> nat \<Rightarrow> ptl_ret \<times> md_t option" where
  "md_get s h = (case md_pool s h of None \<Rightarrow> (PTL_ARG_INVALID, None)
                                    | Some md \<Rightarrow> (PTL_OK, Some md))"

definition xi_alloc :: "lib_state \<Rightarrow> ptl_ret \<times> xi_t option \<times> lib_state" where
  "xi_alloc s = (case xi_free s of [] \<Rightarrow> (PTL_NO_SPACE, None, s)
                                 | xi # rest \<Rightarrow> (PTL_OK, Some xi, s\<lparr>xi_free := rest\<rparr>))"

definition to_ni :: "lib_state \<Rightarrow> md_t \<Rightarrow> ni_t" where
  "to_ni s md = ni_tab s (md_ni md)"

definition process_init :: "xi_t \<Rightarrow> lib_state \<Rightarrow> lib_state" where
  "process_init xi s = s\<lparr>started := started s @ [xi]\<rparr>"

subsection \<open>Argument checks\<close>


definition check_get :: "md_t option \<Rightarrow> u64 \<Rightarrow> u64 \<Rightarrow> ni_t \<Rightarrow> ptl_ret" where
  "check_get md local_offset len ni =
    (case md of None \<Rightarrow> PTL_ARG_INVALID
     | Some m \<Rightarrow>
        if local_offset + len > md_length m then PTL_ARG_INVALID
        else if len > max_msg_size (limits ni) then PTL_ARG_INVALID
        else PTL_OK)"

definition check_atomic ::
  "enums \<Rightarrow> md_t option \<Rightarrow> u64 \<Rightarrow> u64 \<Rightarrow> ni_t \<Rightarrow> int \<Rightarrow> int \<Rightarrow> int \<Rightarrow> ptl_ret" where
  "check_atomic H md local_offset len ni ack_req atom_op atom_type =
    (case md of None \<Rightarrow> PTL_ARG_INVALID
     | Some m \<Rightarrow>
        if local_offset + len > md_length m then PTL_ARG_INVALID
        else if len > max_atomic_size (limits ni) then PTL_ARG_INVALID
        else if ack_req < PTL_NO_ACK_REQ H \<or> ack_req > PTL_OC_ACK_REQ H then PTL_ARG_INVALID
        else if ack_req = PTL_ACK_REQ H \<and> md_eq m = None then PTL_ARG_INVALID
        else if ack_req = PTL_CT_ACK_REQ H \<and> md_ct m = None then PTL_ARG_INVALID
        else if atom_op < PTL_MIN \<or> atom_op \<ge> PTL_OP_LAST then PTL_ARG_INVALID
        else if atomic_ok (op_info atom_op) = 0 then PTL_ARG_INVALID
        else if atom_type < PTL_CHAR \<or> atom_type \<ge> PTL_DATATYPE_LAST then PTL_ARG_INVALID
        else if (atom_type = PTL_FLOAT \<or> atom_type = PTL_DOUBLE)
                \<and> float_ok (op_info atom_op) = 0 then PTL_ARG_INVALID
        else if (atom_type = PTL_FLOAT_COMPLEX \<or> atom_type = PTL_DOUBLE_COMPLEX)
                \<and> complex_ok (op_info atom_op) = 0 then PTL_ARG_INVALID
        else PTL_OK)"

text \<open>
  In \<^verbatim>\<open>length > atom_type_size[atom_type]\<close> the table entry, an \<^verbatim>\<open>int\<close>, is converted
  to the 64-bit unsigned type of \<^verbatim>\<open>length\<close>.
\<close>

definition check_swap ::
  "md_t option \<Rightarrow> u64 \<Rightarrow> u64 \<Rightarrow> ni_t \<Rightarrow> int \<Rightarrow> int \<Rightarrow> ptl_ret" where
  "check_swap md local_offset len ni atom_op atom_type =
    (case md of None \<Rightarrow> PTL_ARG_INVALID
     | Some m \<Rightarrow>
        if local_offset + len > md_length m then PTL_ARG_INVALID
        else if len > max_atomic_size (limits ni) then PTL_ARG_INVALID
        else if atom_op < PTL_MIN \<or> atom_op \<ge> PTL_OP_LAST then PTL_ARG_INVALID
        else if swap_ok (op_info atom_op) = 0 then PTL_ARG_INVALID
        else if atom_type < PTL_CHAR \<or> atom_type \<ge> PTL_DATATYPE_LAST then PTL_ARG_INVALID
        else if (atom_type = PTL_FLOAT \<or> atom_type = PTL_DOUBLE)
                \<and> float_ok (op_info atom_op) = 0 then PTL_ARG_INVALID
        else if (atom_type = PTL_FLOAT_COMPLEX \<or> atom_type = PTL_DOUBLE_COMPLEX)
                \<and> complex_ok (op_info atom_op) = 0 then PTL_ARG_INVALID
        else if use_operand (op_info atom_op) \<noteq> 0
                \<and> len > word_of_int (atom_type_size atom_type) then PTL_ARG_INVALID
        else PTL_OK)"

text \<open>
  \<^verbatim>\<open>get_operand\<close> reads the first 1, 2, 4 or 8 bytes at \<^verbatim>\<open>operand\<close> as an unsigned
  integer of the little-endian host; the argument \<open>operand\<close> gives the byte at each
  offset from the pointer.
\<close>

fun load_le :: "(nat \<Rightarrow> u8) \<Rightarrow> nat \<Rightarrow> u64" where
  "load_le mem 0 = 0"
| "load_le mem (Suc n) = load_le mem n OR push_bit (8 * n) (ucast (mem n))"

definition get_operand :: "int \<Rightarrow> (nat \<Rightarrow> u8) \<Rightarrow> ptl_ret \<times> u64" where
  "get_operand type operand =
    (let n = atom_type_size type;
         val = (if n = 1 then load_le operand 1
                else if n = 2 then load_le operand 2
                else if n = 4 then load_le operand 4
                else if n = 8 then load_le operand 8
                else if n = 16 then - 1
                else - 1)
     in (PTL_OK, val))"

subsection \<open>The calls\<close>


definition PtlAtomic ::
  "bool \<Rightarrow> enums \<Rightarrow> lib_state \<Rightarrow> nat \<Rightarrow> u64 \<Rightarrow> u64 \<Rightarrow> int \<Rightarrow> u32 \<times> u32 \<Rightarrow> u32 \<Rightarrow> u64
     \<Rightarrow> u64 \<Rightarrow> nat \<Rightarrow> u64 \<Rightarrow> int \<Rightarrow> int \<Rightarrow> ptl_ret \<times> lib_state" where
  "PtlAtomic check_build H s md_handle local_offset len ack_req target_id pt_index
      match_bits remote_offset user_ptr hdr_data atom_op atom_type =
    (let err = get_gbl s in
     if err \<noteq> PTL_OK then (err, s)
     else case md_get s md_handle of
       (err, None) \<Rightarrow> (err, s)
     | (err, Some md) \<Rightarrow>
        if err \<noteq> PTL_OK then (err, s)
        else
          let ni = to_ni s md;
              err = (if check_build
                     then check_atomic H (Some md) local_offset len ni ack_req
                            atom_op atom_type
                     else PTL_OK)
          in if err \<noteq> PTL_OK then (err, s)
             else (case xi_alloc s of
               (err, None, _) \<Rightarrow> (err, s)
             | (err, Some xi, s1) \<Rightarrow>
                if err \<noteq> PTL_OK then (err, s)
                else
                  let xi = xi\<lparr>xi_operation := OP_ATOMIC H,
                               xi_target := target_id,
                               xi_uid := uid ni,
                               xi_jid := jid ni,
                               xi_pt_index := pt_index,
                               xi_match_bits := match_bits,
                               xi_ack_req := ack_req,
                               xi_put_md := Some md,
                               xi_hdr_data := hdr_data,
                               xi_user_ptr := user_ptr,
                               xi_atom_op := atom_op,
                               xi_atom_type := atom_type,
                               xi_rlength := len,
                               xi_put_offset := local_offset,
                               xi_put_resid := len,
                               xi_roffset := remote_offset,
                               xi_pkt_len := sizeof_req_hdr_t H,
                               xi_state := STATE_INIT_START\<rparr>
                  in (PTL_OK, process_init xi s1)))"

definition PtlSwap ::
  "bool \<Rightarrow> enums \<Rightarrow> lib_state \<Rightarrow> nat \<Rightarrow> u64 \<Rightarrow> nat \<Rightarrow> u64 \<Rightarrow> u64 \<Rightarrow> u32 \<times> u32 \<Rightarrow> u32
     \<Rightarrow> u64 \<Rightarrow> u64 \<Rightarrow> nat \<Rightarrow> u64 \<Rightarrow> (nat \<Rightarrow> u8) \<Rightarrow> int \<Rightarrow> int \<Rightarrow> ptl_ret \<times> lib_state" where
  "PtlSwap check_build H s get_md_handle local_get_offset put_md_handle local_put_offset
      len target_id pt_index match_bits remote_offset user_ptr hdr_data operand
      atom_op atom_type =
    (let err = get_gbl s in
     if err \<noteq> PTL_OK then (err, s)
     else case md_get s get_md_handle of
       (err, None) \<Rightarrow> (err, s)
     | (err, Some get_md) \<Rightarrow>
        if err \<noteq> PTL_OK then (err, s)
        else (case md_get s put_md_handle of
          (err, None) \<Rightarrow> (err, s)
        | (err, Some put_md) \<Rightarrow>
           if err \<noteq> PTL_OK then (err, s)
           else
             let ni = to_ni s get_md;
                 err = (if \<not> check_build then PTL_OK
                        else let e = check_get (Some get_md) local_get_offset len ni in
                          if e \<noteq> PTL_OK then e
                          else let e = check_swap (Some put_md) local_put_offset len ni
                                         atom_op atom_type in
                            if e \<noteq> PTL_OK then e
                            else if md_ni put_md \<noteq> md_ni get_md then PTL_ARG_INVALID
                            else PTL_OK)
             in if err \<noteq> PTL_OK then (err, s)
                else
                  let (err, opval) = (if use_operand (op_info atom_op) \<noteq> 0
                                      then get_operand atom_type operand
                                      else (PTL_OK, 0))
                  in if err \<noteq> PTL_OK then (err, s)
                     else (case xi_alloc s of
                       (err, None, _) \<Rightarrow> (err, s)
                     | (err, Some xi, s1) \<Rightarrow>
                        if err \<noteq> PTL_OK then (err, s)
                        else
                          let xi = xi\<lparr>xi_operation := OP_SWAP H,
                                       xi_target := target_id,
                                       xi_uid := uid ni,
                                       xi_jid := jid ni,
                                       xi_pt_index := pt_index,
                                       xi_match_bits := match_bits,
                                       xi_put_md := Some put_md,
                                       xi_get_md := Some get_md,
                                       xi_hdr_data := hdr_data,
                                       xi_operand := opval,
                                       xi_user_ptr := user_ptr,
                                       xi_atom_op := atom_op,
                                       xi_atom_type := atom_type,
                                       xi_rlength := len,
                                       xi_put_offset := local_put_offset,
                                       xi_put_resid := len,
                                       xi_get_offset := local_get_offset,
                                       xi_get_resid := len,
                                       xi_roffset := remote_offset,
                                       xi_pkt_len := sizeof_req_hdr_t H,
                                       xi_state := STATE_INIT_START\<rparr>
                          in (PTL_OK, process_init xi s1))))"

subsection \<open>A state for examples\<close>

text \<open>
  One assignment of the enumerators the headers leave open, and a library state with one
  interface, two memory descriptors (handle 1 with event queue and counter, handle 2
  with neither) and one free initiator descriptor.
\<close>

definition example_enums :: enums where
  "example_enums = \<lparr>PTL_ACK_REQ = 1, PTL_NO_ACK_REQ = 0, PTL_CT_ACK_REQ = 2,
     PTL_OC_ACK_REQ = 3, OP_PUT = 1, OP_GET = 2, OP_ATOMIC = 3, OP_SWAP = 5,
     OP_RDMA_DISC = 6, OP_REPLY = 7, sizeof_req_hdr_t = 80, sizeof_ack_hdr_t = 16,
     PTL_PID_ANY = 65535, PTL_PID_MAX = 4, sizeof_ptl_ni_limits_t = 72\<rparr>"

definition example_limits :: ptl_ni_limits_t where
  "example_limits = \<lparr>max_mds = 4, max_cts = 3, max_eqs = 2, max_pt_index = 2, max_iovecs = 8,
     max_list_size = 5, max_msg_size = 4096, max_atomic_size = 512,
     max_waw_ordered_size = 64, max_war_ordered_size = 64, max_volatile_size = 64,
     features = 0\<rparr>"

definition example_ni :: ni_t where
  "example_ni = \<lparr>limits = example_limits, uid = 0, jid = 0\<rparr>"

definition example_md :: md_t where
  "example_md = \<lparr>md_length = 64, md_eq = Some 1, md_ct = Some 1, md_ni = 0\<rparr>"

definition example_md_bare :: md_t where
  "example_md_bare = \<lparr>md_length = 64, md_eq = None, md_ct = None, md_ni = 0\<rparr>"

definition example_xi :: xi_t where
  "example_xi = \<lparr>xi_operation = 0, xi_target = (0, 0), xi_uid = 0, xi_jid = 0,
     xi_pt_index = 0, xi_match_bits = 0, xi_ack_req = 0, xi_put_md = None,
     xi_get_md = None, xi_hdr_data = 0, xi_user_ptr = 0, xi_threshold = 0, xi_atom_op = 0,
     xi_atom_type = 0, xi_operand = 0, xi_rlength = 0, xi_put_offset = 0,
     xi_put_resid = 0, xi_get_offset = 0, xi_get_resid = 0, xi_roffset = 0,
     xi_pkt_len = 0, xi_state = STATE_INIT_DONE\<rparr>"

definition example_state :: lib_state where
  "example_state = \<lparr>initialised = True,
     md_pool = (\<lambda>h. if h = 1 then Some example_md
                     else if h = 2 then Some example_md_bare else None),
     ni_tab = (\<lambda>_. example_ni),
     xi_free = [example_xi],
     started = []\<rparr>"


section \<open>The ordered queue (trunk/src/shmem/include/ptl\_internal\_orderednemesis.h)\<close>

text \<open>
  A queue pointer pairs the address of an entry (\<open>None\<close> for \<^verbatim>\<open>NULL\<close>) with a 64-bit
  sequence value.  An entry holds its \<^verbatim>\<open>next\<close> pointer and data; the store maps the
  address of each entry to its \<^verbatim>\<open>next\<close> field.  The functions are modelled as one thread
  runs them, without another thread writing the queue in between.
\<close>

record ordered_NEMESIS_ptr =
  ptr :: "nat option"
  val :: u64

type_synonym entry_store = "nat \<Rightarrow> ordered_NEMESIS_ptr"

record ordered_NEMESIS_queue =
  head :: ordered_NEMESIS_ptr
  tail :: ordered_NEMESIS_ptr
  shadow_head :: ordered_NEMESIS_ptr




definition PtlInternalOrderedNEMESISInit :: "ordered_NEMESIS_queue \<Rightarrow> ordered_NEMESIS_queue"
  where
  "PtlInternalOrderedNEMESISInit q =
     (let q = q\<lparr>tail := (tail q)\<lparr>ptr := None\<rparr>\<rparr>;
          q = q\<lparr>head := (head q)\<lparr>ptr := None\<rparr>\<rparr>;
          q = q\<lparr>tail := (tail q)\<lparr>val := 0\<rparr>\<rparr>;
          q = q\<lparr>head := (head q)\<lparr>val := 0\<rparr>\<rparr>
      in q\<lparr>shadow_head := head q\<rparr>)"



text \<open>
  The contents of a queue: the entries reached from \<^verbatim>\<open>head\<close> along \<^verbatim>\<open>next\<close>, each
  with its sequence value, the last one being the one \<^verbatim>\<open>tail\<close> names.
\<close>

fun chain :: "entry_store \<Rightarrow> ordered_NEMESIS_ptr \<Rightarrow> (nat \<times> u64) list \<Rightarrow> bool" where
  "chain store p [] = (ptr p = None)"
| "chain store p ((a, v) # xs) = (ptr p = Some a \<and> val p = v \<and> chain store (store a) xs)"

definition queue_contents ::
  "ordered_NEMESIS_queue \<Rightarrow> entry_store \<Rightarrow> (nat \<times> u64) list \<Rightarrow> bool" where
  "queue_contents q store xs =
     (chain store (head q) xs \<and> distinct (map fst xs)
      \<and> (if xs = [] then ptr (tail q) = None
          else ptr (tail q) = Some (fst (last xs)) \<and> val (tail q) = snd (last xs)))"




section \<open>Receive processing (src/ib/ptl\_recv.c)\<close>

subsection \<open>Buffers and the interface\<close>

datatype recv_state = STATE_RECV_SEND_COMP | STATE_RECV_RDMA_COMP | STATE_RECV_PACKET_RDMA
  | STATE_RECV_PACKET | STATE_RECV_DROP_BUF | STATE_RECV_REQ | STATE_RECV_INIT
  | STATE_RECV_REPOST | STATE_RECV_ERROR | STATE_RECV_DONE

datatype tgt_state = STATE_TGT_START | STATE_TGT_DROP | STATE_TGT_GET_MATCH
  | STATE_TGT_GET_LENGTH | STATE_TGT_WAIT_CONN | STATE_TGT_DATA | STATE_TGT_DATA_IN
  | STATE_TGT_RDMA | STATE_TGT_ATOMIC_DATA_IN | STATE_TGT_SWAP_DATA_IN | STATE_TGT_DATA_OUT
  | STATE_TGT_WAIT_RDMA_DESC | STATE_TGT_SHMEM_DESC | STATE_TGT_SEND_ACK
  | STATE_TGT_SEND_REPLY | STATE_TGT_COMM_EVENT | STATE_TGT_WAIT_APPEND
  | STATE_TGT_OVERFLOW_EVENT | STATE_TGT_CLEANUP | STATE_TGT_CLEANUP_2 | STATE_TGT_ERROR
  | STATE_TGT_DONE

text \<open>
  Modelled from the spec: \<^verbatim>\<open>ptl_buf.h\<close> and \<^verbatim>\<open>ptl_hdr.h\<close> are not among the sources.
  The buffer types are those of specification section 4.2; the header version is 1
  (section 6: ``\<^verbatim>\<open>version\<close> is currently \<^verbatim>\<open>1\<close>''); the bits \<^verbatim>\<open>data_in\<close> and
  \<^verbatim>\<open>data_out\<close> are the first two of the header's flags, in the order of section 6.
\<close>

datatype buf_type = BUF_FREE | BUF_SEND | BUF_RECV | BUF_RDMA | BUF_TGT | BUF_INIT
  | BUF_SHMEM_SEND | BUF_SHMEM_RETURN

definition PTL_HDR_VER_1 :: u8 where
  "PTL_HDR_VER_1 = 1"

definition hdr_data_in :: "wire_hdr \<Rightarrow> bool" where
  "hdr_data_in h = bit (h_flags h) 0"

definition hdr_data_out :: "wire_hdr \<Rightarrow> bool" where
  "hdr_data_out h = bit (h_flags h) 1"

text \<open>
  A buffer, with the fields the receive path reads or writes.  \<open>buf_data\<close> is the
  header at the start of \<^verbatim>\<open>buf->data\<close>, \<open>buf_length\<close> the number of bytes received.
  A pointer into a packet is the address of the buffer that holds the packet and an
  offset into its data.  \<open>desc_size\<close> is what \<^verbatim>\<open>data_size\<close> (not among the sources)
  returns for a descriptor pointer into this packet.
\<close>

type_synonym data_ptr = "(nat \<times> nat) option"

record buf_t =
  buf_data :: wire_hdr
  buf_length :: nat
  desc_size :: "data_ptr \<Rightarrow> nat"
  data_in :: data_ptr
  data_out :: data_ptr
  buf_tgt_state :: tgt_state
  buf_type :: buf_type
  recv_buf :: "nat option"
  buf_recv_state :: recv_state
  signaled :: bool
  ni_fail_undeliverable :: bool
  completed :: int
  buf_conn :: "u32 \<times> u32"
  xxbuf :: nat
  rdma_comp_count :: int
  rdma_list :: "nat list"
  rdma_desc_ok :: int
  on_list :: bool

record conn_rdma =
  local_disc :: int
  remote_disc :: int

text \<open>
  Calls that leave this file: the target and the initiator state machine, the reference
  counting of buffers, the teardown of a connection and the posting of receive buffers.
\<close>

datatype call = Process_tgt nat | Process_init nat | Buf_get nat | Buf_put nat
  | Disconnect_conn_locked "u32 \<times> u32" | Ptl_post_recv int

text \<open>
  The interface as the receive path sees it: the buffers by address, the live buffers by
  handle (\<^verbatim>\<open>to_buf\<close>), the connections by peer, the counters, the result the target
  state machine will return for a buffer, and the calls made so far.
\<close>

record recv_ni =
  bufs :: "nat \<Rightarrow> buf_t"
  buf_handles :: "u32 \<Rightarrow> nat option"
  conns :: "u32 \<times> u32 \<Rightarrow> conn_rdma"
  num_recv_drops :: int
  num_recv_errs :: int
  num_posted_recv :: int
  max_srq_wr :: int
  srq_repost_size :: int
  process_tgt_err :: "nat \<Rightarrow> bool"
  calls :: "call list"

definition call_out :: "call \<Rightarrow> recv_ni \<Rightarrow> recv_ni" where
  "call_out c ni = ni\<lparr>calls := calls ni @ [c]\<rparr>"

definition upd_buf :: "nat \<Rightarrow> (buf_t \<Rightarrow> buf_t) \<Rightarrow> recv_ni \<Rightarrow> recv_ni" where
  "upd_buf b f ni = ni\<lparr>bufs := (bufs ni)(b := f (bufs ni b))\<rparr>"

subsection \<open>The states\<close>

text \<open>
  A state function returns the next state and the interface, or \<open>None\<close> when an
  assertion fails.  The flag \<open>ib\<close> says whether \<^verbatim>\<open>WITH_TRANSPORT_IB\<close> is defined.
\<close>

definition send_comp :: "enums \<Rightarrow> recv_ni \<Rightarrow> nat \<Rightarrow> (recv_state \<times> recv_ni) option" where
  "send_comp H ni buf =
    (let b = bufs ni buf in
     if signaled b \<or> ni_fail_undeliverable b then
       (if unat (h_operation (buf_data b)) \<le> OP_SWAP H then
          Some (STATE_RECV_DONE,
                call_out (Buf_put buf)
                  (call_out (Process_init buf) (upd_buf buf (\<lambda>b. b\<lparr>completed := 1\<rparr>) ni)))
        else if unat (h_operation (buf_data b)) = OP_RDMA_DISC H then
          (let c = conns ni (buf_conn b) in
           if local_disc c \<noteq> 1 then None
           else
             let ni = ni\<lparr>conns := (conns ni)(buf_conn b := c\<lparr>local_disc := 2\<rparr>)\<rparr>;
                 ni = (if remote_disc c \<noteq> 0 then call_out (Disconnect_conn_locked (buf_conn b)) ni
                       else ni)
             in Some (STATE_RECV_DONE, call_out (Buf_put buf) ni))
        else Some (STATE_RECV_DONE, call_out (Buf_put buf) ni))
     else Some (STATE_RECV_DONE, call_out (Buf_put buf) ni))"

text \<open>
  \<^verbatim>\<open>list_cut_position\<close> moves the entries of the list up to and including the given one
  to the temporary list, whose buffers are then released one by one.
\<close>

definition rdma_comp :: "recv_ni \<Rightarrow> nat \<Rightarrow> recv_state \<times> recv_ni" where
  "rdma_comp ni rdma_buf =
    (let buf = xxbuf (bufs ni rdma_buf) in
     if \<not> signaled (bufs ni rdma_buf) then (STATE_RECV_DONE, ni)
     else
       let ni = call_out (Buf_get buf) ni;
           ni = (if rdma_buf \<noteq> buf then
                   let l = rdma_list (bufs ni buf);
                       temp_list = (if rdma_buf \<in> set l
                                    then takeWhile (\<lambda>x. x \<noteq> rdma_buf) l @ [rdma_buf] else l);
                       ni = upd_buf buf (\<lambda>b. b\<lparr>rdma_comp_count := rdma_comp_count b - 1,
                                                 rdma_list := drop (length temp_list) l\<rparr>) ni
                   in fold (\<lambda>r. call_out (Buf_put r)) temp_list ni
                 else upd_buf buf (\<lambda>b. b\<lparr>rdma_desc_ok := 1\<rparr>) ni);
           err = process_tgt_err ni buf;
           ni = call_out (Buf_put buf) (call_out (Process_tgt buf) ni)
       in if err then (STATE_RECV_ERROR, ni) else (STATE_RECV_DONE, ni))"

definition recv_packet_rdma :: "recv_ni \<Rightarrow> nat \<Rightarrow> (recv_state \<times> recv_ni) option" where
  "recv_packet_rdma ni buf =
    (let ni = ni\<lparr>num_posted_recv := num_posted_recv ni - 1\<rparr> in
     if \<not> on_list (bufs ni buf) then None
     else Some (STATE_RECV_PACKET, upd_buf buf (\<lambda>b. b\<lparr>on_list := False\<rparr>) ni))"

text \<open>
  The peer a request header names as its source:
  \<^verbatim>\<open>initiator.phys.nid = le32_to_cpu(hdr->src_nid)\<close>, and likewise the pid.
\<close>

definition hdr_initiator :: "wire_hdr \<Rightarrow> u32 \<times> u32" where
  "hdr_initiator hdr = (le32_to_cpu (h_src_nid hdr), le32_to_cpu (h_src_pid hdr))"

definition recv_packet :: "enums \<Rightarrow> bool \<Rightarrow> recv_ni \<Rightarrow> nat \<Rightarrow> recv_state \<times> recv_ni" where
  "recv_packet H ib ni buf =
    (let hdr = buf_data (bufs ni buf) in
     if h_version hdr \<noteq> PTL_HDR_VER_1 then (STATE_RECV_DROP_BUF, ni)
     else if unat (h_operation hdr) \<le> OP_SWAP H then
       (if buf_length (bufs ni buf) < sizeof_req_hdr_t H then (STATE_RECV_DROP_BUF, ni)
        else (STATE_RECV_REQ, ni))
     else if unat (h_operation hdr) \<ge> OP_REPLY H then (STATE_RECV_INIT, ni)
     else if ib then
       (let initiator = hdr_initiator hdr;
            c = conns ni initiator;
            ni = ni\<lparr>conns := (conns ni)(initiator := c\<lparr>remote_disc := 1\<rparr>)\<rparr>;
            ni = (if local_disc c = 2 then call_out (Disconnect_conn_locked initiator) ni
                  else ni)
        in (STATE_RECV_DROP_BUF, ni))
     else (STATE_RECV_DROP_BUF, ni))"

definition recv_req :: "enums \<Rightarrow> recv_ni \<Rightarrow> nat \<Rightarrow> recv_state \<times> recv_ni" where
  "recv_req H ni buf =
    (let b = bufs ni buf;
         hdr = buf_data b;
         d_out = (if hdr_data_in hdr then Some (buf, sizeof_req_hdr_t H) else None);
         d_in = (if hdr_data_out hdr
                 then Some (buf, sizeof_req_hdr_t H + desc_size b d_out) else None);
         ni = upd_buf buf (\<lambda>b. b\<lparr>data_out := d_out, data_in := d_in,
                                   buf_tgt_state := STATE_TGT_START, buf_type := BUF_TGT\<rparr>) ni
     in (STATE_RECV_REPOST, call_out (Process_tgt buf) ni))"

definition recv_init :: "enums \<Rightarrow> recv_ni \<Rightarrow> nat \<Rightarrow> recv_state \<times> recv_ni" where
  "recv_init H ni buf =
    (let b = bufs ni buf;
         hdr = buf_data b
     in case buf_handles ni (le32_to_cpu (h_hdr_handle hdr)) of
          None \<Rightarrow> (STATE_RECV_DROP_BUF, ni)
        | Some init_buf \<Rightarrow>
            let d_out = (if hdr_data_in hdr then Some (buf, sizeof_ack_hdr_t H) else None);
                d_in = (if hdr_data_out hdr
                        then Some (buf, sizeof_ack_hdr_t H + desc_size b d_out) else None);
                ni = upd_buf init_buf (\<lambda>i. i\<lparr>data_out := d_out, data_in := d_in,
                                               recv_buf := Some buf\<rparr>) ni
            in (STATE_RECV_REPOST,
                call_out (Buf_put init_buf) (call_out (Process_init init_buf) ni)))"

definition recv_repost :: "recv_ni \<Rightarrow> recv_state \<times> recv_ni" where
  "recv_repost ni =
    (let num_bufs = max_srq_wr ni - num_posted_recv ni in
     if num_bufs > srq_repost_size ni
     then (STATE_RECV_DONE, call_out (Ptl_post_recv (srq_repost_size ni)) ni)
     else (STATE_RECV_DONE, ni))"

definition recv_drop_buf :: "recv_ni \<Rightarrow> nat \<Rightarrow> recv_state \<times> recv_ni" where
  "recv_drop_buf ni buf =
    (let ni = call_out (Buf_put buf) ni
     in (STATE_RECV_REPOST, ni\<lparr>num_recv_drops := num_recv_drops ni + 1\<rparr>))"

subsection \<open>The two loops\<close>

text \<open>The distance of a state from the end of the loop, for the termination proofs.\<close>

definition state_rank :: "recv_state \<Rightarrow> nat" where
  "state_rank st = (case st of
      STATE_RECV_PACKET_RDMA \<Rightarrow> 5 | STATE_RECV_PACKET \<Rightarrow> 4 | STATE_RECV_REQ \<Rightarrow> 3
    | STATE_RECV_INIT \<Rightarrow> 3 | STATE_RECV_DROP_BUF \<Rightarrow> 2 | STATE_RECV_REPOST \<Rightarrow> 1
    | STATE_RECV_SEND_COMP \<Rightarrow> 1 | STATE_RECV_RDMA_COMP \<Rightarrow> 1
    | STATE_RECV_ERROR \<Rightarrow> 0 | STATE_RECV_DONE \<Rightarrow> 0)"

text \<open>
  One turn of \<^verbatim>\<open>while(1) switch (state)\<close> in \<^verbatim>\<open>process_recv_rdma\<close>: \<open>Inl\<close> when
  the loop is left (with \<open>None\<close> for an abort), \<open>Inr\<close> with the next state otherwise.
\<close>

definition rdma_turn ::
  "enums \<Rightarrow> recv_state \<Rightarrow> recv_ni \<Rightarrow> nat \<Rightarrow> recv_ni option + recv_state \<times> recv_ni" where
  "rdma_turn H state ni buf =
    (case state of
       STATE_RECV_SEND_COMP \<Rightarrow> (case send_comp H ni buf of None \<Rightarrow> Inl None | Some r \<Rightarrow> Inr r)
     | STATE_RECV_RDMA_COMP \<Rightarrow> Inr (rdma_comp ni buf)
     | STATE_RECV_PACKET_RDMA \<Rightarrow>
         (case recv_packet_rdma ni buf of None \<Rightarrow> Inl None | Some r \<Rightarrow> Inr r)
     | STATE_RECV_PACKET \<Rightarrow> Inr (recv_packet H True ni buf)
     | STATE_RECV_REQ \<Rightarrow> Inr (recv_req H ni buf)
     | STATE_RECV_INIT \<Rightarrow> Inr (recv_init H ni buf)
     | STATE_RECV_REPOST \<Rightarrow> Inr (recv_repost ni)
     | STATE_RECV_DROP_BUF \<Rightarrow> Inr (recv_drop_buf ni buf)
     | STATE_RECV_ERROR \<Rightarrow>
         Inl (Some ((call_out (Buf_put buf) ni)\<lparr>num_recv_errs := num_recv_errs ni + 1\<rparr>))
     | STATE_RECV_DONE \<Rightarrow> Inl (Some ni))"

function process_recv_rdma_loop ::
  "enums \<Rightarrow> recv_state \<Rightarrow> recv_ni \<Rightarrow> nat \<Rightarrow> recv_ni option" where
  "process_recv_rdma_loop H state ni buf =
    (case rdma_turn H state ni buf of
       Inl r \<Rightarrow> r
     | Inr (state', ni') \<Rightarrow> process_recv_rdma_loop H state' ni' buf)"
  by pat_completeness auto
termination
  by (relation "measure (\<lambda>(H, state, ni, buf). state_rank state)")
     (auto simp add: rdma_turn_def state_rank_def recv_packet_def recv_req_def recv_init_def
        recv_drop_buf_def recv_repost_def recv_packet_rdma_def rdma_comp_def send_comp_def
        Let_def split: recv_state.splits option.splits if_splits)

declare process_recv_rdma_loop.simps [simp del]

definition process_recv_rdma :: "enums \<Rightarrow> recv_ni \<Rightarrow> nat \<Rightarrow> recv_ni option" where
  "process_recv_rdma H ni buf =
     process_recv_rdma_loop H (buf_recv_state (bufs ni buf)) ni buf"

text \<open>
  One turn of the loop of \<^verbatim>\<open>process_recv_mem\<close>, which starts in
  \<^verbatim>\<open>STATE_RECV_PACKET\<close>, leaves at \<^verbatim>\<open>STATE_RECV_REPOST\<close> and aborts in the three
  states of the RDMA completions.
\<close>

definition mem_turn ::
  "enums \<Rightarrow> bool \<Rightarrow> recv_state \<Rightarrow> recv_ni \<Rightarrow> nat \<Rightarrow> recv_ni option + recv_state \<times> recv_ni"
  where
  "mem_turn H ib state ni buf =
    (case state of
       STATE_RECV_PACKET \<Rightarrow> Inr (recv_packet H ib ni buf)
     | STATE_RECV_REQ \<Rightarrow> Inr (recv_req H ni buf)
     | STATE_RECV_INIT \<Rightarrow> Inr (recv_init H ni buf)
     | STATE_RECV_DROP_BUF \<Rightarrow> Inr (recv_drop_buf ni buf)
     | STATE_RECV_ERROR \<Rightarrow>
         Inl (Some ((call_out (Buf_put buf) ni)\<lparr>num_recv_errs := num_recv_errs ni + 1\<rparr>))
     | STATE_RECV_REPOST \<Rightarrow> Inl (Some ni)
     | STATE_RECV_DONE \<Rightarrow> Inl (Some ni)
     | STATE_RECV_PACKET_RDMA \<Rightarrow> Inl None
     | STATE_RECV_SEND_COMP \<Rightarrow> Inl None
     | STATE_RECV_RDMA_COMP \<Rightarrow> Inl None)"

function process_recv_mem_loop ::
  "enums \<Rightarrow> bool \<Rightarrow> recv_state \<Rightarrow> recv_ni \<Rightarrow> nat \<Rightarrow> recv_ni option" where
  "process_recv_mem_loop H ib state ni buf =
    (case mem_turn H ib state ni buf of
       Inl r \<Rightarrow> r
     | Inr (state', ni') \<Rightarrow> process_recv_mem_loop H ib state' ni' buf)"
  by pat_completeness auto
termination
  by (relation "measure (\<lambda>(H, ib, state, ni, buf). state_rank state)")
     (auto simp add: mem_turn_def state_rank_def recv_packet_def recv_req_def recv_init_def
        recv_drop_buf_def Let_def split: recv_state.splits option.splits if_splits)

declare process_recv_mem_loop.simps [simp del]

definition process_recv_mem :: "enums \<Rightarrow> bool \<Rightarrow> recv_ni \<Rightarrow> nat \<Rightarrow> recv_ni option" where
  "process_recv_mem H ib ni buf = process_recv_mem_loop H ib STATE_RECV_PACKET ni buf"

text \<open>
  The calls an interface has made beyond those of an earlier one, and whether a list of
  calls leaves both state machines alone.
\<close>

definition new_calls :: "recv_ni \<Rightarrow> recv_ni \<Rightarrow> call list" where
  "new_calls ni ni' = drop (length (calls ni)) (calls ni')"

fun state_machine_call :: "call \<Rightarrow> bool" where
  "state_machine_call (Process_tgt b) = True"
| "state_machine_call (Process_init b) = True"
| "state_machine_call c = False"

subsection \<open>Packets for examples\<close>

definition example_hdr :: "u8 \<Rightarrow> u8 \<Rightarrow> u32 \<Rightarrow> wire_hdr" where
  "example_hdr ver opn hdl = \<lparr>h_version = ver, h_operation = opn, h_ni_type = 0, h_pkt_fmt = 0,
     h_flags = 0, h_hdr_handle = hdl, h_src_nid = 0, h_src_pid = 0, h_length = 0,
     h_pt_index = 0, h_match_bits = 0, h_remote_offset = 0, h_hdr_data = 0, h_atom_op = 0,
     h_atom_type = 0, h_ack_req = 0\<rparr>"

definition example_buf :: "wire_hdr \<Rightarrow> nat \<Rightarrow> buf_t" where
  "example_buf hdr len = \<lparr>buf_data = hdr, buf_length = len, desc_size = (\<lambda>_. 0),
     data_in = None, data_out = None, buf_tgt_state = STATE_TGT_DONE, buf_type = BUF_RECV,
     recv_buf = None, buf_recv_state = STATE_RECV_PACKET_RDMA, signaled = False,
     ni_fail_undeliverable = False, completed = 0, buf_conn = (0, 0), xxbuf = 0,
     rdma_comp_count = 0, rdma_list = [], rdma_desc_ok = 0, on_list = True\<rparr>"

text \<open>
  An interface that holds the received packet \<open>hdr\<close> of \<open>len\<close> bytes at address 1 and
  one live buffer, at address 9 under handle 42.
\<close>

definition example_recv_ni :: "wire_hdr \<Rightarrow> nat \<Rightarrow> recv_ni" where
  "example_recv_ni hdr len = \<lparr>bufs = (\<lambda>_. example_buf hdr len),
     buf_handles = (\<lambda>h. if h = 42 then Some 9 else None),
     conns = (\<lambda>_. \<lparr>local_disc = 0, remote_disc = 0\<rparr>),
     num_recv_drops = 0, num_recv_errs = 0, num_posted_recv = 4, max_srq_wr = 8,
     srq_repost_size = 16, process_tgt_err = (\<lambda>_. False), calls = []\<rparr>"


section \<open>Interface setup in the process engine (branches/udp/src/mc/ppe/ni.c)\<close>

subsection \<open>The engine's structures\<close>

text \<open>
  The structures of \<^verbatim>\<open>ppe/ppe.h\<close> and \<^verbatim>\<open>ppe/dispatch.h\<close> are not among the sources; the
  records hold the fields \<^verbatim>\<open>ni.c\<close> uses, pointers as optional addresses (\<open>None\<close> for
  \<^verbatim>\<open>NULL\<close>).  \<open>limits_p\<close> is the field \<^verbatim>\<open>ni->limits\<close>, \<open>ni_pid\<close> the field
  \<^verbatim>\<open>ni->pid\<close>.
\<close>

record ptl_ppe_ni_t =
  limits_ptr :: "nat option"
  limits_p :: "nat option"
  client_ptr :: "nat option"
  client_status_registers :: "nat option"
  client_le :: "nat option"
  client_md :: "nat option"
  client_me :: "nat option"
  client_ct :: "nat option"
  client_eq :: "nat option"
  client_pt :: "nat option"
  client_triggered :: "nat option"
  ppe_md :: "nat option"
  ppe_me :: "nat option"
  ppe_le :: "nat option"
  ppe_pt :: "nat option"
  ppe_eq :: "nat option"
  ppe_ct :: "nat option"
  nal_ni :: "nat option"
  ni_pid :: int

text \<open>What \<^verbatim>\<open>memset(ni, 0, sizeof(ptl_ppe_ni_t))\<close> leaves.\<close>

definition zero_ni :: ptl_ppe_ni_t where
  "zero_ni = \<lparr>limits_ptr = None, limits_p = None, client_ptr = None,
     client_status_registers = None, client_le = None, client_md = None, client_me = None,
     client_ct = None, client_eq = None, client_pt = None, client_triggered = None,
     ppe_md = None, ppe_me = None, ppe_le = None, ppe_pt = None, ppe_eq = None,
     ppe_ct = None, nal_ni = None, ni_pid = 0\<rparr>"

record ptl_ppe_client_t =
  client_pid :: int
  nis :: "nat \<Rightarrow> ptl_ppe_ni_t"

datatype cqe_type = PTLACK | PTLOTHER

record ptl_cqe_t =
  base_type :: cqe_type
  ack_retval_ptr :: nat
  ack_retval :: ptl_ret

text \<open>
  The calls that leave the file, with their arguments: attaching and detaching client
  memory, the allocator, the triggered-operation lists (the array's address and the
  index of the counter), stores into client memory and into the portal table array, and
  the completion entry handed to \<^verbatim>\<open>ptl_cq_entry_send\<close> with its destination.
\<close>

datatype ppe_call = Xpmem_attach nat nat | Xpmem_detach nat | Malloc int
  | Double_list_init "nat option" nat | Double_list_fini "nat option" nat
  | Free "nat option" | Store_phys_proc nat u32 int | Store_pt_status "nat option" nat
  | Cq_entry_send int ptl_cqe_t

text \<open>
  The engine: the clients, the table of reserved pids (\<^verbatim>\<open>PTL_PID_MAX\<close> entries, \<open>-1\<close>
  for a free one), the limits structures in client memory by address, and what the
  environment will answer: the pointer \<^verbatim>\<open>ppe_xpmem_attach\<close> returns for an address and
  a length, the \<^verbatim>\<open>data\<close> address of an attached segment, the next address of the
  allocator, and the results of \<^verbatim>\<open>ptl_cq_entry_alloc\<close> and \<^verbatim>\<open>ptl_cq_entry_send\<close>.
  Reading through a null pointer is undefined in C: \<open>null_page\<close> is what a read of a
  limits structure at address 0 finds, \<open>None\<close> when the access traps.
\<close>

record ptl_ppe_t =
  clients :: "int \<Rightarrow> ptl_ppe_client_t"
  pids :: "nat \<Rightarrow> int"
  ctx_nid :: u32
  page_size :: u64
  ctx_ni :: nat
  limits_mem :: "nat \<Rightarrow> ptl_ni_limits_t"
  null_page :: "ptl_ni_limits_t option"
  xpmem_attach_result :: "nat \<Rightarrow> nat \<Rightarrow> nat option"
  xpmem_data :: "nat \<Rightarrow> nat"
  malloc_next :: nat
  cq_entry_alloc_result :: int
  cq_entry_send_result :: int
  ppe_calls :: "ppe_call list"

record ptl_cqe_niinit_t =
  niinit_remote_id :: int
  niinit_ni :: nat
  niinit_pid :: int
  niinit_limits :: nat
  niinit_shared_data :: nat
  niinit_shared_data_length :: nat
  niinit_phys_addr :: nat
  niinit_status_reg :: nat
  niinit_les :: nat
  niinit_mds :: nat
  niinit_mes :: nat
  niinit_cts :: nat
  niinit_eqs :: nat
  niinit_pts :: nat
  niinit_triggered :: nat
  niinit_retval_ptr :: nat

record ptl_cqe_nifini_t =
  nifini_remote_id :: int
  nifini_ni :: nat
  nifini_retval_ptr :: nat

datatype fault = Out_of_bounds | Null_dereference

datatype outcome = Fault fault | Return int

definition ppe_call_out :: "ppe_call \<Rightarrow> ptl_ppe_t \<Rightarrow> ptl_ppe_t" where
  "ppe_call_out c ctx = ctx\<lparr>ppe_calls := ppe_calls ctx @ [c]\<rparr>"

definition get_ni :: "ptl_ppe_t \<Rightarrow> int \<Rightarrow> nat \<Rightarrow> ptl_ppe_ni_t" where
  "get_ni ctx peer n = nis (clients ctx peer) n"

definition set_ni :: "int \<Rightarrow> nat \<Rightarrow> ptl_ppe_ni_t \<Rightarrow> ptl_ppe_t \<Rightarrow> ptl_ppe_t" where
  "set_ni peer n ni ctx =
     ctx\<lparr>clients := (clients ctx)(peer := (clients ctx peer)\<lparr>nis := (nis (clients ctx peer))(n := ni)\<rparr>)\<rparr>"





subsection \<open>\<^verbatim>\<open>ni_init_impl\<close>\<close>






text \<open>
  The label \<^verbatim>\<open>send_retval\<close>, shared in shape by the end of \<^verbatim>\<open>ni_fini_impl\<close>: the
  entry is filled with the type, the client's \<^verbatim>\<open>retval_ptr\<close> and the constant
  \<^verbatim>\<open>PTL_OK\<close>, and sent to the peer.  The error code computed before the label is in
  \<^verbatim>\<open>ret\<close>, which the result of \<^verbatim>\<open>ptl_cq_entry_alloc\<close> overwrites.
\<close>

definition send_ack :: "ptl_ppe_t \<Rightarrow> int \<Rightarrow> nat \<Rightarrow> outcome \<times> ptl_ppe_t" where
  "send_ack ctx peer retval_ptr =
    (let send_entry = \<lparr>base_type = PTLACK, ack_retval_ptr = retval_ptr, ack_retval = PTL_OK\<rparr>;
         ctx = ppe_call_out (Cq_entry_send peer send_entry) ctx
     in if cq_entry_send_result ctx < 0 then (Return (- 1), ctx) else (Return 0, ctx))"



subsection \<open>\<^verbatim>\<open>ni_fini_impl\<close>\<close>

text \<open>
  The loop \<^verbatim>\<open>for (i = 0; i < ni->limits->max_cts; i++)\<close> reads the bound through
  \<^verbatim>\<open>ni->limits\<close> and passes the address of element \<open>i\<close> of \<^verbatim>\<open>ni->ppe_ct\<close>.
\<close>

definition read_limits :: "ptl_ppe_t \<Rightarrow> nat option \<Rightarrow> ptl_ni_limits_t option" where
  "read_limits ctx p = (case p of None \<Rightarrow> null_page ctx | Some a \<Rightarrow> Some (limits_mem ctx a))"

definition fini_triggered_lists :: "nat option \<Rightarrow> int \<Rightarrow> ptl_ppe_t \<Rightarrow> ptl_ppe_t" where
  "fini_triggered_lists base n ctx =
     fold (\<lambda>i. ppe_call_out (Double_list_fini base i)) [0 ..< nat n] ctx"

definition ni_fini_impl :: "ptl_ppe_t \<Rightarrow> ptl_cqe_nifini_t \<Rightarrow> outcome \<times> ptl_ppe_t" where
  "ni_fini_impl ctx cmd =
    (let peer = nifini_remote_id cmd; n = nifini_ni cmd in
     if cq_entry_alloc_result ctx < 0 then (Return (- 1), ctx)
     else
       let ctx = (case limits_ptr (get_ni ctx peer n) of
                    None \<Rightarrow> ctx | Some p \<Rightarrow> ppe_call_out (Xpmem_detach p) ctx);
           ctx = (case client_ptr (get_ni ctx peer n) of
                    None \<Rightarrow> ctx | Some p \<Rightarrow> ppe_call_out (Xpmem_detach p) ctx);
           ctx = set_ni peer n zero_ni ctx
       in case read_limits ctx (limits_p (get_ni ctx peer n)) of
            None \<Rightarrow> (Fault Null_dereference, ctx)
          | Some l \<Rightarrow>
             let ctx = fini_triggered_lists (ppe_ct (get_ni ctx peer n)) (max_cts l) ctx;
                 ctx = ppe_call_out (Free (ppe_md (get_ni ctx peer n))) ctx;
                 ctx = ppe_call_out (Free (ppe_me (get_ni ctx peer n))) ctx;
                 ctx = ppe_call_out (Free (ppe_le (get_ni ctx peer n))) ctx;
                 ctx = ppe_call_out (Free (ppe_pt (get_ni ctx peer n))) ctx;
                 ctx = ppe_call_out (Free (ppe_eq (get_ni ctx peer n))) ctx;
                 ctx = ppe_call_out (Free (ppe_ct (get_ni ctx peer n))) ctx
             in send_ack ctx peer (nifini_retval_ptr cmd))"

text \<open>The detaching of client memory at the start of \<^verbatim>\<open>ni_fini_impl\<close>, as calls.\<close>

definition detaches :: "ptl_ppe_ni_t \<Rightarrow> ppe_call list" where
  "detaches ni = (case limits_ptr ni of None \<Rightarrow> [] | Some p \<Rightarrow> [Xpmem_detach p])
               @ (case client_ptr ni of None \<Rightarrow> [] | Some p \<Rightarrow> [Xpmem_detach p])"

text \<open>
  The calls made beyond those of an earlier state, and whether a call is a teardown of a
  triggered list or a \<^verbatim>\<open>free\<close> that was given a non-null address.
\<close>

definition new_ppe_calls :: "ptl_ppe_t \<Rightarrow> ptl_ppe_t \<Rightarrow> ppe_call list" where
  "new_ppe_calls ctx ctx' = drop (length (ppe_calls ctx)) (ppe_calls ctx')"

fun uses_address :: "ppe_call \<Rightarrow> bool" where
  "uses_address (Double_list_fini base i) = (base \<noteq> None)"
| "uses_address (Free p) = (p \<noteq> None)"
| "uses_address c = False"

fun sent_retval :: "ppe_call \<Rightarrow> ptl_ret option" where
  "sent_retval (Cq_entry_send peer e) = Some (ack_retval e)"
| "sent_retval c = None"

subsection \<open>An engine for examples\<close>

text \<open>
  Client 0 has no pid; client 1 holds pid 2 and an interface 0 that is set up, with its
  limits at address 100 allowing 3 counters.  Pids 0 and 1 are free, pids 2 and 3 are
  held by client 1 and client 7.
\<close>

definition example_ppe_ni :: ptl_ppe_ni_t where
  "example_ppe_ni = \<lparr>limits_ptr = Some 10, limits_p = Some 100, client_ptr = Some 11,
     client_status_registers = Some 200, client_le = Some 210, client_md = Some 220,
     client_me = Some 230, client_ct = Some 240, client_eq = Some 250, client_pt = Some 260,
     client_triggered = Some 270, ppe_md = Some 1000, ppe_me = Some 1001,
     ppe_le = Some 1002, ppe_pt = Some 1003, ppe_eq = Some 1004, ppe_ct = Some 1005,
     nal_ni = Some 1, ni_pid = 2\<rparr>"

definition example_ppe :: "int \<Rightarrow> ptl_ni_limits_t option \<Rightarrow> ptl_ppe_t" where
  "example_ppe alloc_result page0 =
    \<lparr>clients = (\<lambda>peer. if peer = 1 then \<lparr>client_pid = 2, nis = (\<lambda>_. example_ppe_ni)\<rparr>
                        else \<lparr>client_pid = - 1, nis = (\<lambda>_. zero_ni)\<rparr>),
     pids = (\<lambda>i. if i = 2 then 1 else if i = 3 then 7 else - 1),
     ctx_nid = 1, page_size = 4096, ctx_ni = 1,
     limits_mem = (\<lambda>_. example_limits), null_page = page0,
     xpmem_attach_result = (\<lambda>addr len. Some addr), xpmem_data = (\<lambda>p. p),
     malloc_next = 2000, cq_entry_alloc_result = alloc_result, cq_entry_send_result = 0,
     ppe_calls = []\<rparr>"

definition example_niinit :: "int \<Rightarrow> int \<Rightarrow> ptl_cqe_niinit_t" where
  "example_niinit peer pid = \<lparr>niinit_remote_id = peer, niinit_ni = 0, niinit_pid = pid,
     niinit_limits = 100, niinit_shared_data = 300, niinit_shared_data_length = 4096,
     niinit_phys_addr = 0, niinit_status_reg = 8, niinit_les = 16, niinit_mds = 24,
     niinit_mes = 32, niinit_cts = 40, niinit_eqs = 48, niinit_pts = 56,
     niinit_triggered = 64, niinit_retval_ptr = 77\<rparr>"

definition example_nifini :: ptl_cqe_nifini_t where
  "example_nifini = \<lparr>nifini_remote_id = 1, nifini_ni = 0, nifini_retval_ptr = 78\<rparr>"


chapter \<open>Properties\<close>

section \<open>Byte order conversion\<close>

lemma bit_htons:
  "bit (htons x) n \<longleftrightarrow>
     (if n < 8 then bit x (n + 8) else if n < 16 then bit x (n - 8) else False)"
proof -
  consider "n < 8" | "8 \<le> n \<and> n < 16" | "16 \<le> n"
    by fastforce
  then show ?thesis
    by cases (auto simp add: htons_def bit_simps add.commute dest: bit_imp_le_length)
qed

lemma htons_involution: "htons (htons x) = x"
proof (rule bit_word_eqI)
  fix n assume "n < LENGTH(16)"
  then consider "n < 8" | "8 \<le> n \<and> n < 16"
    by fastforce
  then show "bit (htons (htons x)) n = bit x n"
    by cases (auto simp add: bit_htons)
qed

lemma bit_htonl:
  "bit (htonl x) n \<longleftrightarrow>
     (if n < 8 then bit x (n + 24) else if n < 16 then bit x (n + 8)
      else if n < 24 then bit x (n - 8) else if n < 32 then bit x (n - 24) else False)"
proof -
  consider "n < 8" | "8 \<le> n \<and> n < 16" | "16 \<le> n \<and> n < 24" | "24 \<le> n \<and> n < 32"
    | "32 \<le> n"
    by fastforce
  then show ?thesis
    by cases (auto simp add: htonl_def bit_simps add.commute dest: bit_imp_le_length)
qed

lemma htonl_involution: "htonl (htonl x) = x"
proof (rule bit_word_eqI)
  fix n assume "n < LENGTH(32)"
  then consider "n < 8" | "8 \<le> n \<and> n < 16" | "16 \<le> n \<and> n < 24" | "24 \<le> n \<and> n < 32"
    by fastforce
  then show "bit (htonl (htonl x)) n = bit x n"
    by cases (auto simp add: bit_htonl)
qed

lemma bit_cpu_to_be64:
  "bit (cpu_to_be64 x) n \<longleftrightarrow>
     (if n < 8 then bit x (n + 56) else if n < 16 then bit x (n + 40)
      else if n < 24 then bit x (n + 24) else if n < 32 then bit x (n + 8)
      else if n < 40 then bit x (n - 8) else if n < 48 then bit x (n - 24)
      else if n < 56 then bit x (n - 40) else if n < 64 then bit x (n - 56) else False)"
proof -
  consider "n < 8" | "8 \<le> n \<and> n < 16" | "16 \<le> n \<and> n < 24" | "24 \<le> n \<and> n < 32"
    | "32 \<le> n \<and> n < 40" | "40 \<le> n \<and> n < 48" | "48 \<le> n \<and> n < 56"
    | "56 \<le> n \<and> n < 64" | "64 \<le> n"
    by fastforce
  then show ?thesis
    by cases
      (auto simp add: cpu_to_be64_def bit_simps bit_htonl add.commute dest: bit_imp_le_length)
qed

lemma cpu_to_be64_involution: "cpu_to_be64 (cpu_to_be64 x) = x"
proof (rule bit_word_eqI)
  fix n assume "n < LENGTH(64)"
  then consider "n < 8" | "8 \<le> n \<and> n < 16" | "16 \<le> n \<and> n < 24" | "24 \<le> n \<and> n < 32"
    | "32 \<le> n \<and> n < 40" | "40 \<le> n \<and> n < 48" | "48 \<le> n \<and> n < 56"
    | "56 \<le> n \<and> n < 64"
    by fastforce
  then show "bit (cpu_to_be64 (cpu_to_be64 x)) n = bit x n"
    by cases (auto simp add: bit_cpu_to_be64)
qed

lemma cpu_to_be64_swaps_bytes: "cpu_to_be64 0x1122334455667788 = 0x8877665544332211"
  by (simp add: cpu_to_be64_def htonl_def)

lemma decode_encode_hdr: "decode_hdr (encode_hdr h) = h"
  by (simp add: decode_hdr_def encode_hdr_def cpu_to_le32_def le32_to_cpu_def
      cpu_to_le64_def le64_to_cpu_def)

text \<open>
  Claim C7.  Decoding an encoded header field gives the field back: the little-endian
  conversions of 16, 32 and 64 bits and the big-endian conversions (16, 32 and 64 bits)
  are inverse to each other, and so decoding the encoding of a header gives the header.
\<close>

theorem wire_encoding_roundtrip:
  "le16_to_cpu (cpu_to_le16 a) = a \<and> le32_to_cpu (cpu_to_le32 b) = b
   \<and> le64_to_cpu (cpu_to_le64 c) = c \<and> be64_to_cpu (cpu_to_be64 c) = c
   \<and> be16_to_cpu (cpu_to_be16 a) = a \<and> be32_to_cpu (cpu_to_be32 b) = b
   \<and> decode_hdr (encode_hdr h) = h"
  by (simp add: cpu_to_le16_def le16_to_cpu_def cpu_to_le32_def le32_to_cpu_def
      cpu_to_le64_def le64_to_cpu_def be64_to_cpu_def cpu_to_be64_involution
      be16_to_cpu_def cpu_to_be16_def htons_involution
      be32_to_cpu_def cpu_to_be32_def htonl_involution decode_encode_hdr)


section \<open>Argument checks of the data movement calls\<close>

lemmas ptl_op_defs = PTL_MIN_def PTL_MAX_def PTL_SUM_def PTL_PROD_def PTL_LOR_def
  PTL_LAND_def PTL_BOR_def PTL_BAND_def PTL_LXOR_def PTL_BXOR_def PTL_SWAP_def
  PTL_CSWAP_def PTL_CSWAP_NE_def PTL_CSWAP_LE_def PTL_CSWAP_LT_def PTL_CSWAP_GE_def
  PTL_CSWAP_GT_def PTL_MSWAP_def PTL_OP_LAST_def

lemmas ptl_datatype_defs = PTL_CHAR_def PTL_UCHAR_def PTL_SHORT_def PTL_USHORT_def
  PTL_INT_def PTL_UINT_def PTL_LONG_def PTL_ULONG_def PTL_FLOAT_def PTL_FLOAT_COMPLEX_def
  PTL_DOUBLE_def PTL_DOUBLE_COMPLEX_def PTL_DATATYPE_LAST_def

lemma check_atomic_result:
  "check_atomic H md lo len ni ack op t = PTL_OK \<or> check_atomic H md lo len ni ack op t = PTL_ARG_INVALID"
  by (simp add: check_atomic_def split: option.split)

lemma check_atomic_OK_D:
  assumes "check_atomic H md lo len ni ack op t = PTL_OK"
  shows "PTL_MIN \<le> op" "op < PTL_OP_LAST" "atomic_ok (op_info op) \<noteq> 0"
    "t = PTL_FLOAT \<or> t = PTL_DOUBLE \<Longrightarrow> float_ok (op_info op) \<noteq> 0"
    "t = PTL_FLOAT_COMPLEX \<or> t = PTL_DOUBLE_COMPLEX \<Longrightarrow> complex_ok (op_info op) \<noteq> 0"
  using assms by (auto simp add: check_atomic_def split: option.splits if_splits)

lemma op_info_values:
  "op_info PTL_MIN = info 1 0 1 0 0"
  "op_info PTL_MAX = info 1 0 1 0 0"
  "op_info PTL_SUM = info 1 1 1 0 0"
  "op_info PTL_PROD = info 1 1 1 0 0"
  "op_info PTL_LOR = info 0 0 1 0 0"
  "op_info PTL_LAND = info 0 0 1 0 0"
  "op_info PTL_BOR = info 0 0 1 0 0"
  "op_info PTL_BAND = info 0 0 1 0 0"
  "op_info PTL_LXOR = info 0 0 1 0 0"
  "op_info PTL_BXOR = info 0 0 1 0 0"
  "op_info PTL_SWAP = info 1 1 0 1 0"
  "op_info PTL_CSWAP = info 1 1 0 1 1"
  "op_info PTL_CSWAP_NE = info 1 1 0 1 1"
  "op_info PTL_CSWAP_LE = info 1 0 0 1 1"
  "op_info PTL_CSWAP_LT = info 1 0 0 1 1"
  "op_info PTL_CSWAP_GE = info 1 0 0 1 1"
  "op_info PTL_CSWAP_GT = info 1 0 0 1 1"
  "op_info PTL_MSWAP = info 0 0 0 1 1"
  by (simp_all add: op_info_def op_info_table_def ptl_op_defs)

lemma check_atomic_invalid:
  assumes "atom_op < PTL_MIN \<or> PTL_OP_LAST \<le> atom_op
     \<or> atom_op \<in> {PTL_SWAP, PTL_CSWAP, PTL_CSWAP_NE, PTL_CSWAP_LE, PTL_CSWAP_LT,
                   PTL_CSWAP_GE, PTL_CSWAP_GT, PTL_MSWAP}
     \<or> (atom_type \<in> {PTL_FLOAT, PTL_DOUBLE}
         \<and> atom_op \<in> {PTL_LOR, PTL_LAND, PTL_BOR, PTL_BAND, PTL_LXOR, PTL_BXOR})
     \<or> (atom_type \<in> {PTL_FLOAT_COMPLEX, PTL_DOUBLE_COMPLEX}
         \<and> atom_op \<in> {PTL_MIN, PTL_MAX, PTL_LOR, PTL_LAND, PTL_BOR, PTL_BAND, PTL_LXOR, PTL_BXOR})"
  shows "check_atomic H md lo len ni ack atom_op atom_type = PTL_ARG_INVALID"
proof (rule ccontr)
  assume "check_atomic H md lo len ni ack atom_op atom_type \<noteq> PTL_ARG_INVALID"
  then have ok: "check_atomic H md lo len ni ack atom_op atom_type = PTL_OK"
    using check_atomic_result by blast
  note D = check_atomic_OK_D [OF ok]
  from assms D show False
    by (auto simp add: op_info_values info_def)
qed

text \<open>
  Claim C1, as amended.  In a build with \<^verbatim>\<open>PTL_CHECK_BUILD\<close>, with the library initialised
  and a valid memory descriptor handle, \<^verbatim>\<open>PtlAtomic\<close> returns \<^verbatim>\<open>PTL_ARG_INVALID\<close> and
  leaves the state as it was (no initiator descriptor is taken or started) whenever
  \<^verbatim>\<open>atom_op\<close> is outside \<^verbatim>\<open>[PTL_MIN, PTL_OP_LAST)\<close>, or belongs to the swap family, or
  \<^verbatim>\<open>atom_type\<close> is float or double and the operation is logical or bitwise, or
  \<^verbatim>\<open>atom_type\<close> is complex and the operation is MIN, MAX, logical or bitwise.
\<close>

theorem PtlAtomic_enforces_op_matrix:
  assumes "initialised s" and "md_pool s md_handle = Some md"
    and "atom_op < PTL_MIN \<or> PTL_OP_LAST \<le> atom_op
     \<or> atom_op \<in> {PTL_SWAP, PTL_CSWAP, PTL_CSWAP_NE, PTL_CSWAP_LE, PTL_CSWAP_LT,
                   PTL_CSWAP_GE, PTL_CSWAP_GT, PTL_MSWAP}
     \<or> (atom_type \<in> {PTL_FLOAT, PTL_DOUBLE}
         \<and> atom_op \<in> {PTL_LOR, PTL_LAND, PTL_BOR, PTL_BAND, PTL_LXOR, PTL_BXOR})
     \<or> (atom_type \<in> {PTL_FLOAT_COMPLEX, PTL_DOUBLE_COMPLEX}
         \<and> atom_op \<in> {PTL_MIN, PTL_MAX, PTL_LOR, PTL_LAND, PTL_BOR, PTL_BAND, PTL_LXOR, PTL_BXOR})"
  shows "PtlAtomic True H s md_handle local_offset len ack_req target_id pt_index
           match_bits remote_offset user_ptr hdr_data atom_op atom_type
         = (PTL_ARG_INVALID, s)"
  using assms(1,2) check_atomic_invalid [OF assms(3)]
  by (simp add: PtlAtomic_def get_gbl_def md_get_def)

text \<open>
  Without \<^verbatim>\<open>PTL_CHECK_BUILD\<close> the call does not look at the table: an atomic with the
  operation \<^verbatim>\<open>PTL_SWAP\<close> is accepted and its descriptor is started.
\<close>

theorem PtlAtomic_unchecked_counterexample:
  "PtlAtomic False example_enums example_state 1 0 8 0 (0, 0) 0 0 0 0 0 PTL_SWAP PTL_INT
     = (PTL_OK, example_state\<lparr>xi_free := [],
          started := [example_xi\<lparr>xi_operation := 3, xi_put_md := Some example_md,
            xi_atom_op := PTL_SWAP, xi_atom_type := PTL_INT, xi_rlength := 8,
            xi_put_resid := 8, xi_pkt_len := 80, xi_state := STATE_INIT_START\<rparr>]\<rparr>)"
  by (simp add: PtlAtomic_def get_gbl_def md_get_def example_state_def xi_alloc_def
       process_init_def to_ni_def example_enums_def example_xi_def example_ni_def example_limits_def example_md_def)

theorem PtlAtomic_enforces_op_matrix_witness:
  "initialised example_state \<and> md_pool example_state 1 = Some example_md
   \<and> PtlAtomic True example_enums example_state 1 0 8 0 (0, 0) 0 0 0 0 0 PTL_LOR PTL_FLOAT
       = (PTL_ARG_INVALID, example_state)
   \<and> fst (PtlAtomic True example_enums example_state 1 0 8 0 (0, 0) 0 0 0 0 0 PTL_SUM
            PTL_DOUBLE_COMPLEX) = PTL_OK"
proof -
  have ok: "fst (PtlAtomic True example_enums example_state 1 0 8 0 (0, 0) 0 0 0 0 0 PTL_SUM
            PTL_DOUBLE_COMPLEX) = PTL_OK"
    by (simp add: PtlAtomic_def get_gbl_def md_get_def example_state_def xi_alloc_def
        check_atomic_def to_ni_def example_enums_def example_ni_def example_limits_def
        example_md_def op_info_values info_def)
       (simp add: ptl_op_defs ptl_datatype_defs)
  have 1: "initialised example_state" by (simp add: example_state_def)
  have 2: "md_pool example_state 1 = Some example_md" by (simp add: example_state_def)
  have 3: "PTL_LOR < PTL_MIN \<or> PTL_OP_LAST \<le> PTL_LOR
     \<or> PTL_LOR \<in> {PTL_SWAP, PTL_CSWAP, PTL_CSWAP_NE, PTL_CSWAP_LE, PTL_CSWAP_LT,
                   PTL_CSWAP_GE, PTL_CSWAP_GT, PTL_MSWAP}
     \<or> (PTL_FLOAT \<in> {PTL_FLOAT, PTL_DOUBLE}
         \<and> PTL_LOR \<in> {PTL_LOR, PTL_LAND, PTL_BOR, PTL_BAND, PTL_LXOR, PTL_BXOR})
     \<or> (PTL_FLOAT \<in> {PTL_FLOAT_COMPLEX, PTL_DOUBLE_COMPLEX}
         \<and> PTL_LOR \<in> {PTL_MIN, PTL_MAX, PTL_LOR, PTL_LAND, PTL_BOR, PTL_BAND, PTL_LXOR, PTL_BXOR})"
    by simp
  from PtlAtomic_enforces_op_matrix [OF 1 2 3] 1 2 ok show ?thesis by simp
qed







lemma check_get_result:
  "check_get md lo len ni = PTL_OK \<or> check_get md lo len ni = PTL_ARG_INVALID"
  by (simp add: check_get_def split: option.split)

lemma check_swap_result:
  "check_swap md lo len ni op t = PTL_OK \<or> check_swap md lo len ni op t = PTL_ARG_INVALID"
  by (simp add: check_swap_def split: option.split)

lemma check_swap_OK_iff:
  "check_swap (Some m) lo len ni op t = PTL_OK \<longleftrightarrow>
     \<not> lo + len > md_length m \<and> \<not> len > max_atomic_size (limits ni)
     \<and> PTL_MIN \<le> op \<and> op < PTL_OP_LAST \<and> swap_ok (op_info op) \<noteq> 0
     \<and> PTL_CHAR \<le> t \<and> t < PTL_DATATYPE_LAST
     \<and> \<not> ((t = PTL_FLOAT \<or> t = PTL_DOUBLE) \<and> float_ok (op_info op) = 0)
     \<and> \<not> ((t = PTL_FLOAT_COMPLEX \<or> t = PTL_DOUBLE_COMPLEX) \<and> complex_ok (op_info op) = 0)
     \<and> \<not> (use_operand (op_info op) \<noteq> 0 \<and> len > word_of_int (atom_type_size t))"
  by (auto simp add: check_swap_def)

lemma use_operand_family:
  assumes "op \<in> {PTL_CSWAP, PTL_CSWAP_NE, PTL_CSWAP_LE, PTL_CSWAP_LT, PTL_CSWAP_GE,
                  PTL_CSWAP_GT, PTL_MSWAP}"
  shows "use_operand (op_info op) \<noteq> 0" "swap_ok (op_info op) \<noteq> 0" "PTL_MIN \<le> op" "op < PTL_OP_LAST"
  using assms by (auto simp add: op_info_values info_def) (simp_all add: ptl_op_defs)

text \<open>
  Claim C3, as amended.  In a build with \<^verbatim>\<open>PTL_CHECK_BUILD\<close>, with the library initialised
  and valid handles, a \<^verbatim>\<open>PtlSwap\<close> whose operation uses an operand returns
  \<^verbatim>\<open>PTL_ARG_INVALID\<close>, the state unchanged, whenever the length is greater than the size
  of \<^verbatim>\<open>atom_type\<close>; with a length of at most that size, \<^verbatim>\<open>check_swap\<close> accepts the
  submission when its other checks do.
\<close>

theorem PtlSwap_operand_length:
  assumes "initialised s" and "md_pool s get_md_handle = Some get_md"
    and "md_pool s put_md_handle = Some put_md"
    and "atom_op \<in> {PTL_CSWAP, PTL_CSWAP_NE, PTL_CSWAP_LE, PTL_CSWAP_LT, PTL_CSWAP_GE,
                     PTL_CSWAP_GT, PTL_MSWAP}"
  shows "(len > word_of_int (atom_type_size atom_type)
          \<longrightarrow> PtlSwap True H s get_md_handle local_get_offset put_md_handle local_put_offset
                len target_id pt_index match_bits remote_offset user_ptr hdr_data operand
                atom_op atom_type = (PTL_ARG_INVALID, s))
       \<and> (len \<le> word_of_int (atom_type_size atom_type)
          \<and> local_put_offset + len \<le> md_length put_md
          \<and> len \<le> max_atomic_size (limits (to_ni s get_md))
          \<and> PTL_CHAR \<le> atom_type \<and> atom_type < PTL_DATATYPE_LAST
          \<and> (atom_type = PTL_FLOAT \<or> atom_type = PTL_DOUBLE
               \<longrightarrow> float_ok (op_info atom_op) \<noteq> 0)
          \<and> (atom_type = PTL_FLOAT_COMPLEX \<or> atom_type = PTL_DOUBLE_COMPLEX
               \<longrightarrow> complex_ok (op_info atom_op) \<noteq> 0)
          \<longrightarrow> check_swap (Some put_md) local_put_offset len (to_ni s get_md) atom_op atom_type
               = PTL_OK)"
proof (intro conjI impI)
  assume big: "len > word_of_int (atom_type_size atom_type)"
  have "check_swap (Some put_md) local_put_offset len (to_ni s get_md) atom_op atom_type \<noteq> PTL_OK"
    using big use_operand_family(1) [OF assms(4)] by (simp add: check_swap_OK_iff)
  then have sw: "check_swap (Some put_md) local_put_offset len (to_ni s get_md) atom_op atom_type
      = PTL_ARG_INVALID"
    using check_swap_result by blast
  have "check_get (Some get_md) local_get_offset len (to_ni s get_md) = PTL_OK
      \<or> check_get (Some get_md) local_get_offset len (to_ni s get_md) = PTL_ARG_INVALID"
    by (rule check_get_result)
  then show "PtlSwap True H s get_md_handle local_get_offset put_md_handle local_put_offset
                len target_id pt_index match_bits remote_offset user_ptr hdr_data operand
                atom_op atom_type = (PTL_ARG_INVALID, s)"
    using assms(1-3) sw by (auto simp add: PtlSwap_def get_gbl_def md_get_def Let_def)
next
  assume small: "len \<le> word_of_int (atom_type_size atom_type)
          \<and> local_put_offset + len \<le> md_length put_md
          \<and> len \<le> max_atomic_size (limits (to_ni s get_md))
          \<and> PTL_CHAR \<le> atom_type \<and> atom_type < PTL_DATATYPE_LAST
          \<and> (atom_type = PTL_FLOAT \<or> atom_type = PTL_DOUBLE
               \<longrightarrow> float_ok (op_info atom_op) \<noteq> 0)
          \<and> (atom_type = PTL_FLOAT_COMPLEX \<or> atom_type = PTL_DOUBLE_COMPLEX
               \<longrightarrow> complex_ok (op_info atom_op) \<noteq> 0)"
  then show "check_swap (Some put_md) local_put_offset len (to_ni s get_md) atom_op atom_type
               = PTL_OK"
    using use_operand_family [OF assms(4)]
    by (auto simp add: check_swap_OK_iff not_less)
qed

theorem PtlSwap_operand_length_witness:
  "PtlSwap True example_enums example_state 1 0 1 0 8 (0, 0) 0 0 0 0 0 (\<lambda>_. 0)
      PTL_CSWAP PTL_INT = (PTL_ARG_INVALID, example_state)
   \<and> check_swap (Some example_md) 0 4 (to_ni example_state example_md) PTL_CSWAP PTL_INT
      = PTL_OK"
proof -
  have i: "initialised example_state" by (simp add: example_state_def)
  have m: "md_pool example_state 1 = Some example_md" by (simp add: example_state_def)
  have f: "PTL_CSWAP \<in> {PTL_CSWAP, PTL_CSWAP_NE, PTL_CSWAP_LE, PTL_CSWAP_LT, PTL_CSWAP_GE,
                     PTL_CSWAP_GT, PTL_MSWAP}" by simp
  have big: "(8 :: u64) > word_of_int (atom_type_size PTL_INT)"
    by (simp add: atom_type_size_def atom_type_size_table_def ptl_datatype_defs)
  have small: "(4 :: u64) \<le> word_of_int (atom_type_size PTL_INT)
          \<and> 0 + 4 \<le> md_length example_md
          \<and> 4 \<le> max_atomic_size (limits (to_ni example_state example_md))
          \<and> PTL_CHAR \<le> PTL_INT \<and> PTL_INT < PTL_DATATYPE_LAST
          \<and> (PTL_INT = PTL_FLOAT \<or> PTL_INT = PTL_DOUBLE
               \<longrightarrow> float_ok (op_info PTL_CSWAP) \<noteq> 0)
          \<and> (PTL_INT = PTL_FLOAT_COMPLEX \<or> PTL_INT = PTL_DOUBLE_COMPLEX
               \<longrightarrow> complex_ok (op_info PTL_CSWAP) \<noteq> 0)"
    by (simp add: atom_type_size_def atom_type_size_table_def ptl_datatype_defs
        example_md_def example_state_def to_ni_def example_ni_def example_limits_def)
  from PtlSwap_operand_length [OF i m m f, where len = 8 and atom_type = PTL_INT
      and H = example_enums and local_get_offset = 0 and local_put_offset = 0
      and target_id = "(0, 0)" and pt_index = 0 and match_bits = 0 and remote_offset = 0
      and user_ptr = 0 and hdr_data = 0 and operand = "\<lambda>_. 0"] big
    PtlSwap_operand_length [OF i m m f, where len = 4 and atom_type = PTL_INT
      and local_put_offset = 0] small
  show ?thesis by blast
qed

text \<open>
  Without \<^verbatim>\<open>PTL_CHECK_BUILD\<close> a compare-and-swap of 8 bytes on a 4-byte type is accepted
  and started.
\<close>

theorem PtlSwap_unchecked_counterexample:
  "fst (PtlSwap False example_enums example_state 1 0 1 0 8 (0, 0) 0 0 0 0 0 (\<lambda>_. 0)
      PTL_CSWAP PTL_INT) = PTL_OK
   \<and> started (snd (PtlSwap False example_enums example_state 1 0 1 0 8 (0, 0) 0 0 0 0 0
      (\<lambda>_. 0) PTL_CSWAP PTL_INT)) \<noteq> []
   \<and> use_operand (op_info PTL_CSWAP) = 1 \<and> atom_type_size PTL_INT = 4"
  by (simp add: PtlSwap_def get_gbl_def md_get_def example_state_def xi_alloc_def
       process_init_def to_ni_def example_enums_def example_xi_def example_ni_def example_limits_def example_md_def
       get_operand_def op_info_values info_def atom_type_size_def atom_type_size_table_def
       ptl_datatype_defs)


section \<open>The ordered queue\<close>



lemma chain_last_null:
  "chain store p xs \<Longrightarrow> xs \<noteq> [] \<Longrightarrow> ptr (store (fst (last xs))) = None"
  by (induction store p xs rule: chain.induct) (auto split: if_splits)





lemma Init_empty: "queue_contents (PtlInternalOrderedNEMESISInit q) store []"
  by (simp add: queue_contents_def PtlInternalOrderedNEMESISInit_def Let_def)




section \<open>Receive processing\<close>

lemma mem_loop_repost:
  "process_recv_mem_loop H ib STATE_RECV_REPOST ni buf = Some ni"
  by (subst process_recv_mem_loop.simps) (simp add: mem_turn_def)

lemma mem_loop_drop_buf:
  "process_recv_mem_loop H ib STATE_RECV_DROP_BUF ni buf
     = Some (ni\<lparr>calls := calls ni @ [Buf_put buf], num_recv_drops := num_recv_drops ni + 1\<rparr>)"
  by (subst process_recv_mem_loop.simps)
     (simp add: mem_turn_def recv_drop_buf_def call_out_def Let_def mem_loop_repost)

lemma mem_loop_packet:
  "process_recv_mem_loop H ib STATE_RECV_PACKET ni buf
     = process_recv_mem_loop H ib (fst (recv_packet H ib ni buf)) (snd (recv_packet H ib ni buf)) buf"
  by (subst process_recv_mem_loop.simps) (simp add: mem_turn_def split: prod.split)


lemma mem_loop_init:
  "process_recv_mem_loop H ib STATE_RECV_INIT ni buf
     = (case buf_handles ni (le32_to_cpu (h_hdr_handle (buf_data (bufs ni buf)))) of
          None \<Rightarrow> Some (ni\<lparr>calls := calls ni @ [Buf_put buf],
                            num_recv_drops := num_recv_drops ni + 1\<rparr>)
        | Some i \<Rightarrow> Some (snd (recv_init H ni buf)))"
  by (subst process_recv_mem_loop.simps)
     (simp add: mem_turn_def recv_init_def Let_def mem_loop_repost mem_loop_drop_buf
        split: option.split)

lemma rdma_loop_repost:
  "process_recv_rdma_loop H STATE_RECV_REPOST ni buf = Some (snd (recv_repost ni))"
  apply (subst process_recv_rdma_loop.simps)
  apply (simp add: rdma_turn_def recv_repost_def Let_def)
  apply (subst process_recv_rdma_loop.simps, simp add: rdma_turn_def)+
  done

lemma rdma_loop_drop_buf:
  "process_recv_rdma_loop H STATE_RECV_DROP_BUF ni buf
     = Some (snd (recv_repost (ni\<lparr>calls := calls ni @ [Buf_put buf],
                                  num_recv_drops := num_recv_drops ni + 1\<rparr>)))"
  by (subst process_recv_rdma_loop.simps)
     (simp add: rdma_turn_def recv_drop_buf_def call_out_def Let_def rdma_loop_repost)

lemma rdma_loop_packet:
  "process_recv_rdma_loop H STATE_RECV_PACKET ni buf
     = process_recv_rdma_loop H (fst (recv_packet H True ni buf)) (snd (recv_packet H True ni buf)) buf"
  by (subst process_recv_rdma_loop.simps) (simp add: rdma_turn_def split: prod.split)

lemma rdma_loop_packet_rdma:
  "on_list (bufs ni buf) \<Longrightarrow>
   process_recv_rdma_loop H STATE_RECV_PACKET_RDMA ni buf
     = process_recv_rdma_loop H STATE_RECV_PACKET
         (upd_buf buf (\<lambda>b. b\<lparr>on_list := False\<rparr>) (ni\<lparr>num_posted_recv := num_posted_recv ni - 1\<rparr>)) buf"
  by (subst process_recv_rdma_loop.simps) (simp add: rdma_turn_def recv_packet_rdma_def Let_def)

lemma rdma_loop_init:
  "process_recv_rdma_loop H STATE_RECV_INIT ni buf
     = (case buf_handles ni (le32_to_cpu (h_hdr_handle (buf_data (bufs ni buf)))) of
          None \<Rightarrow> Some (snd (recv_repost (ni\<lparr>calls := calls ni @ [Buf_put buf],
                                  num_recv_drops := num_recv_drops ni + 1\<rparr>)))
        | Some i \<Rightarrow> Some (snd (recv_repost (snd (recv_init H ni buf)))))"
  by (subst process_recv_rdma_loop.simps)
     (simp add: rdma_turn_def recv_init_def Let_def rdma_loop_repost rdma_loop_drop_buf
        split: option.split)

lemma recv_repost_result:
  "snd (recv_repost ni) = ni\<lparr>calls := calls ni @
      (if max_srq_wr ni - num_posted_recv ni > srq_repost_size ni
       then [Ptl_post_recv (srq_repost_size ni)] else [])\<rparr>"
  by (simp add: recv_repost_def call_out_def Let_def)

lemma recv_packet_drop:
  assumes "h_version (buf_data (bufs ni buf)) \<noteq> PTL_HDR_VER_1
      \<or> (unat (h_operation (buf_data (bufs ni buf))) \<le> OP_SWAP H
          \<and> buf_length (bufs ni buf) < sizeof_req_hdr_t H)"
  shows "recv_packet H ib ni buf = (STATE_RECV_DROP_BUF, ni)"
  using assms by (auto simp add: recv_packet_def Let_def)

text \<open>
  Claim C6.  A received packet whose header version is not 1, or whose operation is a
  request (at most \<^verbatim>\<open>OP_SWAP\<close>) and whose length is less than the request header, is
  dropped: the shared-memory loop releases the buffer, adds exactly one to
  \<^verbatim>\<open>num_recv_drops\<close> and changes nothing else; the RDMA loop, entered for a received
  buffer, does the same before it reposts.  Neither calls the target or the initiator
  state machine, which are the only source of events.
\<close>

theorem protocol_errors_dropped:
  assumes "h_version (buf_data (bufs ni buf)) \<noteq> PTL_HDR_VER_1
      \<or> (unat (h_operation (buf_data (bufs ni buf))) \<le> OP_SWAP H
          \<and> buf_length (bufs ni buf) < sizeof_req_hdr_t H)"
  shows "process_recv_mem H ib ni buf
           = Some (ni\<lparr>calls := calls ni @ [Buf_put buf],
                       num_recv_drops := num_recv_drops ni + 1\<rparr>)
       \<and> (buf_recv_state (bufs ni buf) = STATE_RECV_PACKET_RDMA \<and> on_list (bufs ni buf) \<longrightarrow>
            (\<exists>ni'. process_recv_rdma H ni buf = Some ni'
               \<and> num_recv_drops ni' = num_recv_drops ni + 1
               \<and> num_recv_errs ni' = num_recv_errs ni
               \<and> \<not> list_ex state_machine_call (new_calls ni ni')))"
proof (intro conjI impI)
  show "process_recv_mem H ib ni buf
           = Some (ni\<lparr>calls := calls ni @ [Buf_put buf],
                       num_recv_drops := num_recv_drops ni + 1\<rparr>)"
    by (simp add: process_recv_mem_def mem_loop_packet recv_packet_drop [OF assms]
        mem_loop_drop_buf)
next
  assume "buf_recv_state (bufs ni buf) = STATE_RECV_PACKET_RDMA \<and> on_list (bufs ni buf)"
  then have l: "on_list (bufs ni buf)"
    and r: "process_recv_rdma H ni buf = process_recv_rdma_loop H STATE_RECV_PACKET_RDMA ni buf"
    by (simp_all add: process_recv_rdma_def)
  let ?ni = "upd_buf buf (\<lambda>b. b\<lparr>on_list := False\<rparr>) (ni\<lparr>num_posted_recv := num_posted_recv ni - 1\<rparr>)"
  have "h_version (buf_data (bufs ?ni buf)) \<noteq> PTL_HDR_VER_1
      \<or> (unat (h_operation (buf_data (bufs ?ni buf))) \<le> OP_SWAP H
          \<and> buf_length (bufs ?ni buf) < sizeof_req_hdr_t H)"
    using assms by (simp add: upd_buf_def)
  then have "recv_packet H True ?ni buf = (STATE_RECV_DROP_BUF, ?ni)"
    by (rule recv_packet_drop)
  then have "process_recv_rdma_loop H STATE_RECV_PACKET_RDMA ni buf
      = Some (snd (recv_repost (?ni\<lparr>calls := calls ?ni @ [Buf_put buf],
                                  num_recv_drops := num_recv_drops ?ni + 1\<rparr>)))"
    using l by (simp add: rdma_loop_packet_rdma rdma_loop_packet rdma_loop_drop_buf)
  with r show "\<exists>ni'. process_recv_rdma H ni buf = Some ni'
               \<and> num_recv_drops ni' = num_recv_drops ni + 1
               \<and> num_recv_errs ni' = num_recv_errs ni
               \<and> \<not> list_ex state_machine_call (new_calls ni ni')"
    by (simp add: recv_repost_result new_calls_def upd_buf_def)
qed

text \<open>
  Claim C10.  A version-1 packet whose operation is a response (at least \<^verbatim>\<open>OP_REPLY\<close>)
  and whose handle does not resolve to a live buffer goes to \<^verbatim>\<open>recv_init\<close>, which
  takes the \<^verbatim>\<open>DROP_BUF\<close> path: the buffer is released, \<^verbatim>\<open>num_recv_drops\<close> grows by
  one, and the initiator state machine is not called.
\<close>

theorem unresolved_reply_dropped:
  assumes "h_version (buf_data (bufs ni buf)) = PTL_HDR_VER_1"
    and "OP_SWAP H < OP_REPLY H"
    and "unat (h_operation (buf_data (bufs ni buf))) \<ge> OP_REPLY H"
    and "buf_handles ni (le32_to_cpu (h_hdr_handle (buf_data (bufs ni buf)))) = None"
  shows "recv_packet H ib ni buf = (STATE_RECV_INIT, ni)
       \<and> recv_init H ni buf = (STATE_RECV_DROP_BUF, ni)
       \<and> process_recv_mem H ib ni buf
           = Some (ni\<lparr>calls := calls ni @ [Buf_put buf],
                       num_recv_drops := num_recv_drops ni + 1\<rparr>)
       \<and> (buf_recv_state (bufs ni buf) = STATE_RECV_PACKET_RDMA \<and> on_list (bufs ni buf) \<longrightarrow>
            (\<exists>ni'. process_recv_rdma H ni buf = Some ni'
               \<and> num_recv_drops ni' = num_recv_drops ni + 1
               \<and> \<not> list_ex state_machine_call (new_calls ni ni')))"
proof (intro conjI impI)
  show p: "recv_packet H ib ni buf = (STATE_RECV_INIT, ni)" for ib
    using assms(1-3) by (simp add: recv_packet_def Let_def)
  show "recv_init H ni buf = (STATE_RECV_DROP_BUF, ni)"
    using assms(4) by (simp add: recv_init_def Let_def)
  show "process_recv_mem H ib ni buf
           = Some (ni\<lparr>calls := calls ni @ [Buf_put buf],
                       num_recv_drops := num_recv_drops ni + 1\<rparr>)"
    using assms(4) by (simp add: process_recv_mem_def mem_loop_packet p mem_loop_init)
next
  assume "buf_recv_state (bufs ni buf) = STATE_RECV_PACKET_RDMA \<and> on_list (bufs ni buf)"
  then have l: "on_list (bufs ni buf)"
    and r: "process_recv_rdma H ni buf = process_recv_rdma_loop H STATE_RECV_PACKET_RDMA ni buf"
    by (simp_all add: process_recv_rdma_def)
  let ?ni = "upd_buf buf (\<lambda>b. b\<lparr>on_list := False\<rparr>) (ni\<lparr>num_posted_recv := num_posted_recv ni - 1\<rparr>)"
  have h: "buf_data (bufs ?ni buf) = buf_data (bufs ni buf)" "buf_handles ?ni = buf_handles ni"
    by (simp_all add: upd_buf_def)
  have "recv_packet H True ?ni buf = (STATE_RECV_INIT, ?ni)"
    using assms(1-3) by (simp add: recv_packet_def Let_def h)
  then have "process_recv_rdma_loop H STATE_RECV_PACKET_RDMA ni buf
      = Some (snd (recv_repost (?ni\<lparr>calls := calls ?ni @ [Buf_put buf],
                                  num_recv_drops := num_recv_drops ?ni + 1\<rparr>)))"
    using l assms(4) by (simp add: rdma_loop_packet_rdma rdma_loop_packet rdma_loop_init h)
  with r show "\<exists>ni'. process_recv_rdma H ni buf = Some ni'
               \<and> num_recv_drops ni' = num_recv_drops ni + 1
               \<and> \<not> list_ex state_machine_call (new_calls ni ni')"
    by (simp add: recv_repost_result new_calls_def upd_buf_def)
qed



lemmas example_recv_defs = example_recv_ni_def example_buf_def example_hdr_def
  example_enums_def PTL_HDR_VER_1_def

theorem protocol_errors_dropped_witness:
  "process_recv_mem example_enums False (example_recv_ni (example_hdr 2 1 0) 100) 1
     = Some ((example_recv_ni (example_hdr 2 1 0) 100)\<lparr>calls := [Buf_put 1],
               num_recv_drops := 1\<rparr>)
   \<and> process_recv_mem example_enums False (example_recv_ni (example_hdr 1 1 0) 10) 1
     = Some ((example_recv_ni (example_hdr 1 1 0) 10)\<lparr>calls := [Buf_put 1],
               num_recv_drops := 1\<rparr>)
   \<and> (\<exists>ni'. process_recv_rdma example_enums (example_recv_ni (example_hdr 1 1 0) 10) 1
               = Some ni'
         \<and> num_recv_drops ni' = 1 \<and> num_recv_errs ni' = 0
         \<and> \<not> list_ex state_machine_call
               (new_calls (example_recv_ni (example_hdr 1 1 0) 10) ni'))"
proof -
  let ?a = "example_recv_ni (example_hdr 2 1 0) 100"
  let ?b = "example_recv_ni (example_hdr 1 1 0) 10"
  have a: "h_version (buf_data (bufs ?a 1)) \<noteq> PTL_HDR_VER_1
      \<or> (unat (h_operation (buf_data (bufs ?a 1))) \<le> OP_SWAP example_enums
          \<and> buf_length (bufs ?a 1) < sizeof_req_hdr_t example_enums)"
    by (simp add: example_recv_defs)
  have b: "h_version (buf_data (bufs ?b 1)) \<noteq> PTL_HDR_VER_1
      \<or> (unat (h_operation (buf_data (bufs ?b 1))) \<le> OP_SWAP example_enums
          \<and> buf_length (bufs ?b 1) < sizeof_req_hdr_t example_enums)"
    by (simp add: example_recv_defs)
  have l: "buf_recv_state (bufs ?b 1) = STATE_RECV_PACKET_RDMA \<and> on_list (bufs ?b 1)"
    by (simp add: example_recv_defs)
  have z: "calls ?a = []" "num_recv_drops ?a = 0" "calls ?b = []" "num_recv_drops ?b = 0"
    "num_recv_errs ?b = 0"
    by (simp_all add: example_recv_ni_def)
  from protocol_errors_dropped [OF a, of False]
  have 1: "process_recv_mem example_enums False ?a 1
      = Some (?a\<lparr>calls := calls ?a @ [Buf_put 1], num_recv_drops := num_recv_drops ?a + 1\<rparr>)"
    by blast
  from protocol_errors_dropped [OF b, of False]
  have 2: "process_recv_mem example_enums False ?b 1
      = Some (?b\<lparr>calls := calls ?b @ [Buf_put 1], num_recv_drops := num_recv_drops ?b + 1\<rparr>)"
    by blast
  from protocol_errors_dropped [OF b, of False] l
  have 3: "\<exists>ni'. process_recv_rdma example_enums ?b 1 = Some ni'
         \<and> num_recv_drops ni' = num_recv_drops ?b + 1 \<and> num_recv_errs ni' = num_recv_errs ?b
         \<and> \<not> list_ex state_machine_call (new_calls ?b ni')"
    by blast
  from 1 2 3 show ?thesis by (simp add: z)
qed

theorem unresolved_reply_dropped_witness:
  "recv_init example_enums (example_recv_ni (example_hdr 1 7 5) 100) 1
     = (STATE_RECV_DROP_BUF, example_recv_ni (example_hdr 1 7 5) 100)
   \<and> process_recv_mem example_enums False (example_recv_ni (example_hdr 1 7 5) 100) 1
     = Some ((example_recv_ni (example_hdr 1 7 5) 100)\<lparr>calls := [Buf_put 1],
               num_recv_drops := 1\<rparr>)
   \<and> (\<exists>ni'. process_recv_rdma example_enums (example_recv_ni (example_hdr 1 7 5) 100) 1
               = Some ni'
         \<and> num_recv_drops ni' = 1
         \<and> \<not> list_ex state_machine_call
               (new_calls (example_recv_ni (example_hdr 1 7 5) 100) ni'))"
proof -
  let ?a = "example_recv_ni (example_hdr 1 7 5) 100"
  have 1: "h_version (buf_data (bufs ?a 1)) = PTL_HDR_VER_1"
    by (simp add: example_recv_defs)
  have 2: "OP_SWAP example_enums < OP_REPLY example_enums"
    by (simp add: example_recv_defs)
  have 3: "OP_REPLY example_enums \<le> unat (h_operation (buf_data (bufs ?a 1)))"
    by (simp add: example_recv_defs)
  have 4: "buf_handles ?a (le32_to_cpu (h_hdr_handle (buf_data (bufs ?a 1)))) = None"
    by (simp add: example_recv_defs le32_to_cpu_def)
  have l: "buf_recv_state (bufs ?a 1) = STATE_RECV_PACKET_RDMA \<and> on_list (bufs ?a 1)"
    by (simp add: example_recv_defs)
  have z: "calls ?a = []" "num_recv_drops ?a = 0"
    by (simp_all add: example_recv_ni_def)
  from unresolved_reply_dropped [OF 1 2 3 4, of False]
  have 5: "recv_init example_enums ?a 1 = (STATE_RECV_DROP_BUF, ?a)"
    and 6: "process_recv_mem example_enums False ?a 1
      = Some (?a\<lparr>calls := calls ?a @ [Buf_put 1], num_recv_drops := num_recv_drops ?a + 1\<rparr>)"
    by blast+
  from unresolved_reply_dropped [OF 1 2 3 4, of False] l
  have 7: "\<exists>ni'. process_recv_rdma example_enums ?a 1 = Some ni'
         \<and> num_recv_drops ni' = num_recv_drops ?a + 1
         \<and> \<not> list_ex state_machine_call (new_calls ?a ni')"
    by blast
  from 5 6 7 show ?thesis by (simp add: z)
qed




section \<open>Interface setup in the process engine\<close>

lemma fold_call_out:
  "fold (\<lambda>i. ppe_call_out (f i)) xs ctx = ctx\<lparr>ppe_calls := ppe_calls ctx @ map f xs\<rparr>"
  by (induction xs arbitrary: ctx) (simp_all add: ppe_call_out_def)

lemma get_set_ni [simp]: "get_ni (set_ni peer n ni ctx) peer n = ni"
  by (simp add: get_ni_def set_ni_def)

lemma set_ni_fields [simp]:
  "ppe_calls (set_ni peer n ni ctx) = ppe_calls ctx"
  "null_page (set_ni peer n ni ctx) = null_page ctx"
  "limits_mem (set_ni peer n ni ctx) = limits_mem ctx"
  "cq_entry_send_result (set_ni peer n ni ctx) = cq_entry_send_result ctx"
  "cq_entry_alloc_result (set_ni peer n ni ctx) = cq_entry_alloc_result ctx"
  by (simp_all add: set_ni_def)

lemma call_out_fields [simp]:
  "ppe_calls (ppe_call_out c ctx) = ppe_calls ctx @ [c]"
  "null_page (ppe_call_out c ctx) = null_page ctx"
  "limits_mem (ppe_call_out c ctx) = limits_mem ctx"
  "clients (ppe_call_out c ctx) = clients ctx"
  "cq_entry_send_result (ppe_call_out c ctx) = cq_entry_send_result ctx"
  "cq_entry_alloc_result (ppe_call_out c ctx) = cq_entry_alloc_result ctx"
  "get_ni (ppe_call_out c ctx) peer n = get_ni ctx peer n"
  by (simp_all add: ppe_call_out_def get_ni_def)

lemma ni_fini_alloc_fails:
  "cq_entry_alloc_result ctx < 0 \<Longrightarrow> ni_fini_impl ctx cmd = (Return (- 1), ctx)"
  by (simp add: ni_fini_impl_def)

lemma ni_fini_trap:
  assumes "0 \<le> cq_entry_alloc_result ctx" and "null_page ctx = None"
  shows "ni_fini_impl ctx cmd =
     (Fault Null_dereference,
      set_ni (nifini_remote_id cmd) (nifini_ni cmd) zero_ni
        (ctx\<lparr>ppe_calls := ppe_calls ctx
               @ detaches (get_ni ctx (nifini_remote_id cmd) (nifini_ni cmd))\<rparr>))"
  using assms
  by (simp add: ni_fini_impl_def Let_def read_limits_def zero_ni_def detaches_def
      ppe_call_out_def get_ni_def set_ni_def split: option.split)

lemma ni_fini_no_trap:
  assumes "0 \<le> cq_entry_alloc_result ctx" and "null_page ctx = Some l"
  shows "ni_fini_impl ctx cmd =
     (Return (if cq_entry_send_result ctx < 0 then - 1 else 0),
      set_ni (nifini_remote_id cmd) (nifini_ni cmd) zero_ni
        (ctx\<lparr>ppe_calls := ppe_calls ctx
               @ detaches (get_ni ctx (nifini_remote_id cmd) (nifini_ni cmd))
               @ map (Double_list_fini None) [0 ..< nat (max_cts l)]
               @ replicate 6 (Free None)
               @ [Cq_entry_send (nifini_remote_id cmd)
                    \<lparr>base_type = PTLACK, ack_retval_ptr = nifini_retval_ptr cmd,
                      ack_retval = PTL_OK\<rparr>]\<rparr>))"
  using assms
  by (simp add: ni_fini_impl_def Let_def read_limits_def zero_ni_def detaches_def
      ppe_call_out_def get_ni_def set_ni_def fini_triggered_lists_def fold_call_out send_ack_def
      numeral_eq_Suc split: option.split)

lemma quiet_map [simp]:
  "list_all (\<lambda>c. sent_retval c = None) (map (Store_pt_status b) xs)"
  "list_all (\<lambda>c. sent_retval c = None) (map (Double_list_init b) xs)"
  by (simp_all add: list_all_iff)


text \<open>
  Claim C8.  \<^verbatim>\<open>ni_fini_impl\<close> zeroes the interface before the loop over the triggered
  lists.  Whatever the interface held before the call, once the completion entry is
  allocated the interface is all zero, the loop reads its bound through the null
  \<^verbatim>\<open>ni->limits\<close> (a trap, or whatever lies at address 0) and hands the null
  \<^verbatim>\<open>ni->ppe_ct\<close> to every teardown, and the six calls of \<^verbatim>\<open>free\<close> receive null: no
  teardown and no \<^verbatim>\<open>free\<close> is ever given an address the interface held.
\<close>

theorem ni_fini_use_after_clear:
  "list_all (\<lambda>c. \<not> uses_address c) (new_ppe_calls ctx (snd (ni_fini_impl ctx cmd)))
   \<and> (0 \<le> cq_entry_alloc_result ctx \<longrightarrow>
        get_ni (snd (ni_fini_impl ctx cmd)) (nifini_remote_id cmd) (nifini_ni cmd) = zero_ni
        \<and> new_ppe_calls ctx (snd (ni_fini_impl ctx cmd)) =
            detaches (get_ni ctx (nifini_remote_id cmd) (nifini_ni cmd))
            @ (case null_page ctx of
                 None \<Rightarrow> []
               | Some l \<Rightarrow> map (Double_list_fini None) [0 ..< nat (max_cts l)]
                           @ replicate 6 (Free None)
                           @ [Cq_entry_send (nifini_remote_id cmd)
                                \<lparr>base_type = PTLACK, ack_retval_ptr = nifini_retval_ptr cmd,
                                  ack_retval = PTL_OK\<rparr>])
        \<and> (null_page ctx = None \<longrightarrow> fst (ni_fini_impl ctx cmd) = Fault Null_dereference))"
proof -
  have q: "list_all (\<lambda>c. \<not> uses_address c) (detaches ni)" for ni
    by (simp add: detaches_def split: option.split)
  have m: "list_all (\<lambda>c. \<not> uses_address c) (map (Double_list_fini None) xs)" for xs
    by (simp add: list_all_iff)
  have r: "list_all (\<lambda>c. \<not> uses_address c) (replicate k (Free None))" for k
    by (simp add: list_all_iff)
  show ?thesis
  proof (cases "cq_entry_alloc_result ctx < 0")
    case True
    then show ?thesis by (simp add: ni_fini_alloc_fails new_ppe_calls_def)
  next
    case False
    then have a: "0 \<le> cq_entry_alloc_result ctx" by simp
    show ?thesis
    proof (cases "null_page ctx")
      case None
      show ?thesis
        using a None q by (simp add: ni_fini_trap [OF a None] new_ppe_calls_def)
    next
      case (Some l)
      show ?thesis
        using a Some q m r by (simp add: ni_fini_no_trap [OF a Some] new_ppe_calls_def)
    qed
  qed
qed







lemmas example_ppe_defs = example_ppe_def example_ppe_ni_def example_nifini_def
  example_niinit_def example_limits_def example_enums_def

theorem ni_fini_use_after_clear_witness:
  "ppe_ct (get_ni (example_ppe 0 (Some example_limits)) 1 0) = Some 1005
   \<and> limits_p (get_ni (example_ppe 0 (Some example_limits)) 1 0) = Some 100
   \<and> get_ni (snd (ni_fini_impl (example_ppe 0 (Some example_limits)) example_nifini)) 1 0
       = zero_ni
   \<and> new_ppe_calls (example_ppe 0 (Some example_limits))
         (snd (ni_fini_impl (example_ppe 0 (Some example_limits)) example_nifini))
       = [Xpmem_detach 10, Xpmem_detach 11,
          Double_list_fini None 0, Double_list_fini None 1, Double_list_fini None 2,
          Free None, Free None, Free None, Free None, Free None, Free None,
          Cq_entry_send 1 \<lparr>base_type = PTLACK, ack_retval_ptr = 78, ack_retval = PTL_OK\<rparr>]
   \<and> fst (ni_fini_impl (example_ppe 0 None) example_nifini) = Fault Null_dereference
   \<and> new_ppe_calls (example_ppe 0 None) (snd (ni_fini_impl (example_ppe 0 None) example_nifini))
       = [Xpmem_detach 10, Xpmem_detach 11]"
proof -
  let ?c = "example_ppe 0 (Some example_limits)"
  let ?d = "example_ppe 0 None"
  have a: "0 \<le> cq_entry_alloc_result ?c" "0 \<le> cq_entry_alloc_result ?d"
    by (simp_all add: example_ppe_def)
  have n: "null_page ?c = Some example_limits" "null_page ?d = None"
    by (simp_all add: example_ppe_def)
  have g: "get_ni ?c 1 0 = example_ppe_ni" "get_ni ?d 1 0 = example_ppe_ni"
    by (simp_all add: get_ni_def example_ppe_def)
  have r: "replicate 6 (Free None) = [Free None, Free None, Free None, Free None, Free None,
      Free None]"
    by (simp add: numeral_eq_Suc)
  have d: "detaches example_ppe_ni = [Xpmem_detach 10, Xpmem_detach 11]"
    by (simp add: detaches_def example_ppe_ni_def)
  have u: "[0 ..< nat (max_cts example_limits)] = [0, 1, 2]"
    by (simp add: example_limits_def upt_rec)
  have f: "nifini_remote_id example_nifini = 1" "nifini_ni example_nifini = 0"
    "nifini_retval_ptr example_nifini = 78"
    by (simp_all add: example_nifini_def)
  have o: "ppe_ct (get_ni ?c 1 0) = Some 1005" "limits_p (get_ni ?c 1 0) = Some 100"
    by (simp_all add: get_ni_def example_ppe_def example_ppe_ni_def)
  from ni_fini_use_after_clear [of ?c example_nifini] a(1)
  have 1: "get_ni (snd (ni_fini_impl ?c example_nifini)) 1 0 = zero_ni"
    and 2: "new_ppe_calls ?c (snd (ni_fini_impl ?c example_nifini)) =
       [Xpmem_detach 10, Xpmem_detach 11,
          Double_list_fini None 0, Double_list_fini None 1, Double_list_fini None 2,
          Free None, Free None, Free None, Free None, Free None, Free None,
          Cq_entry_send 1 \<lparr>base_type = PTLACK, ack_retval_ptr = 78, ack_retval = PTL_OK\<rparr>]"
    by (simp_all add: n f g d u r)
  from ni_fini_use_after_clear [of ?d example_nifini] a(2)
  have 3: "fst (ni_fini_impl ?d example_nifini) = Fault Null_dereference"
    and 4: "new_ppe_calls ?d (snd (ni_fini_impl ?d example_nifini))
       = [Xpmem_detach 10, Xpmem_detach 11]"
    by (simp_all add: n f g d)
  from o 1 2 3 4 show ?thesis by simp
qed



end
